theory Spec2Isabelle
  imports Complex_Main "HOL-Library.AList"
begin

section \<open>Python values and exceptions\<close>

text \<open>
  The program is one Python module, \<^verbatim>\<open>main.py\<close>. Its exceptions become values: an
  exception is its class together with the text \<^verbatim>\<open>str(e)\<close> gives, which is all the
  program ever reads from one (in the f-strings of its \<^verbatim>\<open>except\<close> clauses).
\<close>

datatype exn_class =
  RequestException | RuntimeError | KeyError | ValueError | AttributeError
  | ZeroDivisionError | TypeError | IndexError

datatype exn = Exn exn_class string

fun exc_str :: "exn \<Rightarrow> string" where
  "exc_str (Exn c m) = m"

fun exc_class :: "exn \<Rightarrow> exn_class" where
  "exc_class (Exn c m) = c"

text \<open>
  Python floats are IEEE doubles. A finite float is modelled by the real number it stands
  for, so rounding inside the finite range is not represented. Overflow is: an exact result
  at or beyond \<open>2^1024 - 2^970\<close>, the rounding boundary above the largest double, is an
  infinity, and infinities and NaN combine as IEEE 754 says. Signed zeros are one zero.
\<close>

datatype pyfloat = Fin real | PosInf | NegInf | NaN

definition DBL_OVERFLOW :: real where
  "DBL_OVERFLOW = 2 ^ 1024 - 2 ^ 970"

definition to_float :: "real \<Rightarrow> pyfloat" where
  "to_float x =
     (if DBL_OVERFLOW \<le> x then PosInf else if x \<le> - DBL_OVERFLOW then NegInf else Fin x)"

text \<open>
  The quotient and the product of two floats. Python raises before it divides by zero
  (see \<open>py_div\<close> below); for a zero divisor \<open>fdiv\<close> is the IEEE value.
\<close>

fun fdiv :: "pyfloat \<Rightarrow> pyfloat \<Rightarrow> pyfloat" where
  "fdiv NaN b = NaN"
| "fdiv a NaN = NaN"
| "fdiv (Fin x) (Fin y) =
     (if y = 0 then (if x = 0 then NaN else if 0 < x then PosInf else NegInf)
      else to_float (x / y))"
| "fdiv (Fin x) PosInf = Fin 0"
| "fdiv (Fin x) NegInf = Fin 0"
| "fdiv PosInf (Fin y) = (if y < 0 then NegInf else PosInf)"
| "fdiv NegInf (Fin y) = (if y < 0 then PosInf else NegInf)"
| "fdiv PosInf PosInf = NaN"
| "fdiv PosInf NegInf = NaN"
| "fdiv NegInf PosInf = NaN"
| "fdiv NegInf NegInf = NaN"

fun fmul :: "pyfloat \<Rightarrow> pyfloat \<Rightarrow> pyfloat" where
  "fmul NaN b = NaN"
| "fmul a NaN = NaN"
| "fmul (Fin x) (Fin y) = to_float (x * y)"
| "fmul (Fin x) PosInf = (if x = 0 then NaN else if 0 < x then PosInf else NegInf)"
| "fmul (Fin x) NegInf = (if x = 0 then NaN else if 0 < x then NegInf else PosInf)"
| "fmul PosInf (Fin y) = (if y = 0 then NaN else if 0 < y then PosInf else NegInf)"
| "fmul NegInf (Fin y) = (if y = 0 then NaN else if 0 < y then NegInf else PosInf)"
| "fmul PosInf PosInf = PosInf"
| "fmul PosInf NegInf = NegInf"
| "fmul NegInf PosInf = NegInf"
| "fmul NegInf NegInf = PosInf"

text \<open>The comparisons \<^verbatim>\<open>a >= b\<close> and \<^verbatim>\<open>a != b\<close>: a NaN is not greater or equal, and differs from everything.\<close>

fun fge :: "pyfloat \<Rightarrow> pyfloat \<Rightarrow> bool" where
  "fge NaN b = False"
| "fge a NaN = False"
| "fge (Fin x) (Fin y) = (y \<le> x)"
| "fge PosInf b = True"
| "fge a NegInf = True"
| "fge (Fin x) PosInf = False"
| "fge NegInf b = False"

definition fne :: "pyfloat \<Rightarrow> pyfloat \<Rightarrow> bool" where
  "fne a b = (a = NaN \<or> b = NaN \<or> a \<noteq> b)"

text \<open>A float that is not negative: a finite one from zero up, or the positive infinity.\<close>

fun float_nonneg :: "pyfloat \<Rightarrow> bool" where
  "float_nonneg (Fin x) = (0 \<le> x)"
| "float_nonneg PosInf = True"
| "float_nonneg NegInf = False"
| "float_nonneg NaN = False"

text \<open>
  Dictionaries that leave the module (the snapshot, which Flask serialises and the metrics
  handler subscripts by string keys) are dynamically typed values. A dictionary is an
  association list in insertion order.
\<close>

datatype pyval =
  PStr string
  | PInt int
  | PFloat pyfloat
  | PDict "(string \<times> pyval) list"

text \<open>
  \<^verbatim>\<open>repr\<close> of a string without quotes of its own: the string between single quotes, as
  \<^verbatim>\<open>str(KeyError(k))\<close> prints a key and as the messages of Python name types and attributes.
\<close>

definition py_repr :: "string \<Rightarrow> string" where
  "py_repr k = [CHR 0x27] @ k @ [CHR 0x27]"

fun getitem :: "pyval \<Rightarrow> string \<Rightarrow> exn + pyval" where
  "getitem (PDict kvs) k =
     (case map_of kvs k of
        None \<Rightarrow> Inl (Exn KeyError (py_repr k))
      | Some v \<Rightarrow> Inr v)"
| "getitem (PStr s) k =
     Inl (Exn TypeError (''string indices must be integers, not '' @ py_repr ''str''))"
| "getitem (PInt i) k = Inl (Exn TypeError (py_repr ''int'' @ '' object is not subscriptable''))"
| "getitem (PFloat x) k = Inl (Exn TypeError (py_repr ''float'' @ '' object is not subscriptable''))"

fun items :: "pyval \<Rightarrow> exn + (string \<times> pyval) list" where
  "items (PDict kvs) = Inr kvs"
| "items (PStr s) =
     Inl (Exn AttributeError (py_repr ''str'' @ '' object has no attribute '' @ py_repr ''items''))"
| "items (PInt i) =
     Inl (Exn AttributeError (py_repr ''int'' @ '' object has no attribute '' @ py_repr ''items''))"
| "items (PFloat x) =
     Inl (Exn AttributeError (py_repr ''float'' @ '' object has no attribute '' @ py_repr ''items''))"

text \<open>
  Truth value of an object in a condition: a dictionary is true when it is not empty, a
  float when it differs from zero.
\<close>

fun truthy :: "pyval \<Rightarrow> bool" where
  "truthy (PDict kvs) = (kvs \<noteq> [])"
| "truthy (PStr s) = (s \<noteq> [])"
| "truthy (PInt i) = (i \<noteq> 0)"
| "truthy (PFloat x) = fne x (Fin 0)"

section \<open>The three compiled patterns\<close>

text \<open>
  The patterns of the module use literals and lazily starred character classes only
  (\<^verbatim>\<open>\w*?\<close>, \<^verbatim>\<open>\d*?\<close>, \<^verbatim>\<open>.*?\<close>), so a pattern is a list of such items. A response body is
  a list of 8-bit characters, read as the code points U+0000 to U+00FF.
\<close>

datatype cls = AnyChar | Digit | Word

datatype item = Lit char | Star cls

definition is_digit :: "char \<Rightarrow> bool" where
  "is_digit c = (48 \<le> (of_char c :: nat) \<and> (of_char c :: nat) \<le> 57)"

definition is_word :: "char \<Rightarrow> bool" where
  "is_word c =
     (let n = (of_char c :: nat) in
        (48 \<le> n \<and> n \<le> 57) \<or> (65 \<le> n \<and> n \<le> 90) \<or> (97 \<le> n \<and> n \<le> 122) \<or> n = 95
        \<or> n = 170 \<or> n = 178 \<or> n = 179 \<or> n = 181 \<or> n = 185 \<or> n = 186
        \<or> (188 \<le> n \<and> n \<le> 190) \<or> (192 \<le> n \<and> n \<le> 214)
        \<or> (216 \<le> n \<and> n \<le> 246) \<or> 248 \<le> n)"

fun in_cls :: "cls \<Rightarrow> char \<Rightarrow> bool" where
  "in_cls AnyChar c = (c \<noteq> CHR 0x0A)"
| "in_cls Digit c = is_digit c"
| "in_cls Word c = is_word c"

text \<open>
  \<^verbatim>\<open>pattern.match(s)\<close>: a backtracking match anchored at the start of \<open>s\<close>. A lazy star
  first tries to go on with the rest of the pattern and takes one more character only when
  that fails. The result is the text each star consumed, in pattern order, and the
  unmatched rest of \<open>s\<close>; \<open>None\<close> is Python's \<^verbatim>\<open>None\<close>.
\<close>

fun re_match :: "item list \<Rightarrow> string \<Rightarrow> (string list \<times> string) option" where
  "re_match [] s = Some ([], s)"
| "re_match (Lit c # p) [] = None"
| "re_match (Lit c # p) (x # xs) = (if x = c then re_match p xs else None)"
| "re_match (Star k # p) s =
     (case re_match p s of
        Some (gs, r) \<Rightarrow> Some ([] # gs, r)
      | None \<Rightarrow>
          (case s of
             [] \<Rightarrow> None
           | x # xs \<Rightarrow>
               if in_cls k x then
                 (case re_match (Star k # p) xs of
                    Some (g # gs, r) \<Rightarrow> Some ((x # g) # gs, r)
                  | _ \<Rightarrow> None)
               else None))"

text \<open>
  \<^verbatim>\<open>pattern.finditer(s)\<close>: the matches found scanning left to right, each as the matched
  text (\<^verbatim>\<open>match.group()\<close>) and the star groups. After a match the scan resumes where it
  ended; where nothing matches, or the match is empty, it moves one character on.
\<close>

function finditer :: "item list \<Rightarrow> string \<Rightarrow> (string \<times> string list) list" where
  "finditer p s =
     (case re_match p s of
        Some (gs, r) \<Rightarrow>
          if length r < length s
          then (take (length s - length r) s, gs) # finditer p r
          else ([], gs) # (case s of [] \<Rightarrow> [] | x # xs \<Rightarrow> finditer p xs)
      | None \<Rightarrow> (case s of [] \<Rightarrow> [] | x # xs \<Rightarrow> finditer p xs))"
  by pat_completeness auto
termination
  by (relation "measure (\<lambda>(p, s). length s)") auto

declare finditer.simps [simp del] re_match.simps(4) [simp del]

text \<open>
  \<^verbatim>\<open>OUTER_PATTERN = (<(?P<type>\w*?)>.*?</\w*?>)\<close>,
  \<^verbatim>\<open>INNER_PATTERN = <.*?>(?P<total>\d*?),(?P<used>\d*?),(?P<free>\d*?),(?P<per>\d*?)</.*?>\<close>,
  \<^verbatim>\<open>SIMPLE_PATTERN = <.*?>(?P<string>.*?)</.*?>\<close>.
\<close>

definition OUTER_PATTERN :: "item list" where
  "OUTER_PATTERN =
     [Lit CHR ''<'', Star Word, Lit CHR ''>'', Star AnyChar,
      Lit CHR ''<'', Lit CHR ''/'', Star Word, Lit CHR ''>'']"

definition INNER_PATTERN :: "item list" where
  "INNER_PATTERN =
     [Lit CHR ''<'', Star AnyChar, Lit CHR ''>'',
      Star Digit, Lit CHR '','', Star Digit, Lit CHR '','', Star Digit, Lit CHR '','', Star Digit,
      Lit CHR ''<'', Lit CHR ''/'', Star AnyChar, Lit CHR ''>'']"

definition SIMPLE_PATTERN :: "item list" where
  "SIMPLE_PATTERN =
     [Lit CHR ''<'', Star AnyChar, Lit CHR ''>'', Star AnyChar,
      Lit CHR ''<'', Lit CHR ''/'', Star AnyChar, Lit CHR ''>'']"

text \<open>
  \<^verbatim>\<open>match.groups()\<close> and \<^verbatim>\<open>match.groupdict()\<close> read a group of a match. Every star
  of a matched pattern has its group (lemma \<open>re_match_sound\<close> below), so the index is
  always in range where the program reads one.
\<close>

definition group :: "string list \<Rightarrow> nat \<Rightarrow> string" where
  "group gs i = (if i < length gs then gs ! i else [])"

section \<open>Constants and configuration\<close>

definition CACHE_DURATION :: real where
  "CACHE_DURATION = 60"

definition API_URL :: string where
  "API_URL = ''https://nerdvm.racknerd.com/api/client/command.php''"

definition RESOURCE_TYPES :: "string list" where
  "RESOURCE_TYPES = [''hdd'', ''bw'', ''mem'']"

definition INFO_TYPES :: "string list" where
  "INFO_TYPES = [''hostname'', ''ipaddress'']"

definition BYTES_TO_GB :: real where
  "BYTES_TO_GB = 1024 ^ 3"

definition GB_TO_TB :: real where
  "GB_TO_TB = 1024"

record ServerConfig =
  key :: string
  hash_value :: string
  should_loop :: bool
  sleep_minutes :: int

text \<open>
  What one call of \<^verbatim>\<open>get_vps_data\<close> meets outside the program: the two readings of the
  clock, what the body of \<^verbatim>\<open>load_config\<close> evaluates to (environment variables and
  files are not modelled), and the upstream server, which answers a POST with the text of
  a successful response or with the message of a \<^verbatim>\<open>RequestException\<close> (transport error,
  timeout, or the status error of \<^verbatim>\<open>raise_for_status\<close>).
\<close>

record env =
  time_entry :: real
  config_source :: "exn + ServerConfig"
  upstream :: "(string \<times> string) list \<Rightarrow> string \<Rightarrow> string + string"
  time_assembly :: real

definition load_config :: "env \<Rightarrow> exn + ServerConfig" where
  "load_config e =
     (case config_source e of
        Inl x \<Rightarrow> Inl (Exn RuntimeError (''Failed to load configuration: '' @ exc_str x))
      | Inr c \<Rightarrow> Inr c)"

section \<open>Unit conversion and the resource processor\<close>

datatype mag = GB | TB

text \<open>The two divisors are constants other than zero, so these divisions never raise.\<close>

definition convert_bytes_to_readable :: "pyfloat \<Rightarrow> pyfloat \<times> mag" where
  "convert_bytes_to_readable v =
     (let gb_value = fdiv v (Fin BYTES_TO_GB) in
        if fge gb_value (Fin 1000) then (fdiv gb_value (Fin GB_TO_TB), TB) else (gb_value, GB))"

text \<open>
  \<^verbatim>\<open>float(s)\<close> on the strings the inner pattern can capture, runs of decimal digits: the
  empty run raises \<^verbatim>\<open>ValueError\<close>, any other run is the float of the number it writes,
  which is \<^verbatim>\<open>inf\<close> for a run beyond the range of a double (some 309 digits). Strings of
  another form never reach \<^verbatim>\<open>process_resource_data\<close> (theorem
  \<open>inner_groups_are_digit_runs\<close>); the model answers \<^verbatim>\<open>ValueError\<close> for them too, which
  is not what Python does for a string such as \<^verbatim>\<open>1.5\<close>.
\<close>

primrec all_digits :: "string \<Rightarrow> bool" where
  "all_digits [] = True"
| "all_digits (c # cs) = (is_digit c \<and> all_digits cs)"

definition digit_val :: "char \<Rightarrow> nat" where
  "digit_val c = of_char c - 48"

definition nat_of_digits :: "string \<Rightarrow> nat" where
  "nat_of_digits s = foldl (\<lambda>n c. 10 * n + digit_val c) 0 s"

definition py_float :: "string \<Rightarrow> exn + pyfloat" where
  "py_float s =
     (if s \<noteq> [] \<and> all_digits s then Inr (to_float (real (nat_of_digits s)))
      else Inl (Exn ValueError (''could not convert string to float: '' @ py_repr s)))"

record groupdict =
  total :: string
  used :: string
  free :: string
  per :: string

record resource_data =
  r_per :: pyfloat
  total_display :: pyfloat
  total_mag :: mag
  r_total :: pyfloat
  used_display :: pyfloat
  used_mag :: mag
  r_used :: pyfloat
  free_display :: pyfloat
  free_mag :: mag
  r_free :: pyfloat

text \<open>
  \<^verbatim>\<open>process_resource_data\<close>. The fields are parsed in the order of the source: used,
  total, then the percentage (a float division by zero raises in Python), then total, used and
  free in the loop (total and used parse there as they did before).
\<close>

definition py_div :: "pyfloat \<Rightarrow> pyfloat \<Rightarrow> exn + pyfloat" where
  "py_div a b =
     (if b = Fin 0 then Inl (Exn ZeroDivisionError ''float division by zero'') else Inr (fdiv a b))"

definition process_resource_data :: "groupdict \<Rightarrow> exn + resource_data" where
  "process_resource_data d =
     (case py_float (used d) of
        Inl x \<Rightarrow> Inl x
      | Inr u \<Rightarrow>
     (case py_float (total d) of
        Inl x \<Rightarrow> Inl x
      | Inr t \<Rightarrow>
     (case (if fne u (Fin 0) \<or> fne t (Fin 0)
            then (case py_div u t of Inl x \<Rightarrow> Inl x | Inr q \<Rightarrow> Inr (fmul q (Fin 100)))
            else Inr (Fin 0)) of
        Inl x \<Rightarrow> Inl x
      | Inr p \<Rightarrow>
     (case py_float (free d) of
        Inl x \<Rightarrow> Inl x
      | Inr f \<Rightarrow>
          Inr \<lparr>r_per = p,
               total_display = fst (convert_bytes_to_readable t),
               total_mag = snd (convert_bytes_to_readable t),
               r_total = t,
               used_display = fst (convert_bytes_to_readable u),
               used_mag = snd (convert_bytes_to_readable u),
               r_used = u,
               free_display = fst (convert_bytes_to_readable f),
               free_mag = snd (convert_bytes_to_readable f),
               r_free = f\<rparr>))))"

section \<open>The response parser\<close>

datatype field = Resource resource_data | Info string

definition inner_groupdict :: "string \<Rightarrow> groupdict option" where
  "inner_groupdict block =
     (case re_match INNER_PATTERN block of
        None \<Rightarrow> None
      | Some (gs, r) \<Rightarrow>
          Some \<lparr>total = group gs 1, used = group gs 2, free = group gs 3, per = group gs 4\<rparr>)"

text \<open>
  The loop of \<^verbatim>\<open>api_response\<close> over the matches of the outer pattern. \<^verbatim>\<open>None.groupdict()\<close>
  and \<^verbatim>\<open>None.groups()\<close> raise \<^verbatim>\<open>AttributeError\<close>; an exception ends the loop.
\<close>

fun api_response_loop ::
  "(string \<times> string list) list \<Rightarrow> (string \<times> field) list \<Rightarrow> exn + (string \<times> field) list" where
  "api_response_loop [] result = Inr result"
| "api_response_loop ((block, gs) # ms) result =
     (let type_name = group gs 0 in
        if type_name \<in> set RESOURCE_TYPES then
          (case inner_groupdict block of
             None \<Rightarrow>
               Inl (Exn AttributeError
                      (py_repr ''NoneType'' @ '' object has no attribute '' @ py_repr ''groupdict''))
           | Some data \<Rightarrow>
               (case process_resource_data data of
                  Inl x \<Rightarrow> Inl x
                | Inr processed_data \<Rightarrow>
                    api_response_loop ms (AList.update type_name (Resource processed_data) result)))
        else if type_name \<in> set INFO_TYPES then
          (case re_match SIMPLE_PATTERN block of
             None \<Rightarrow>
               Inl (Exn AttributeError
                      (py_repr ''NoneType'' @ '' object has no attribute '' @ py_repr ''groups''))
           | Some (sg, r) \<Rightarrow>
               api_response_loop ms (AList.update type_name (Info (group sg 1)) result))
        else api_response_loop ms result)"

text \<open>
  \<^verbatim>\<open>api_response\<close>: one POST, then the loop. Only a \<^verbatim>\<open>RequestException\<close> is caught and
  raised again as a \<^verbatim>\<open>RuntimeError\<close>; the exceptions of the loop pass through.
\<close>

definition api_response :: "env \<Rightarrow> (string \<times> string) list \<Rightarrow> string \<Rightarrow> exn + (string \<times> field) list" where
  "api_response e flags api_url =
     (case upstream e flags api_url of
        Inl m \<Rightarrow> Inl (Exn RuntimeError (''API request failed: '' @ m))
      | Inr text \<Rightarrow> api_response_loop (finditer OUTER_PATTERN text) [])"

section \<open>The cache gate and the fetch\<close>

text \<open>The two globals \<^verbatim>\<open>cached_data\<close> and \<^verbatim>\<open>last_update\<close>; \<open>None\<close> is Python's \<^verbatim>\<open>None\<close>.\<close>

record cache =
  cached_data :: "pyval option"
  last_update :: real

definition initial_cache :: cache where
  "initial_cache = \<lparr>cached_data = None, last_update = 0\<rparr>"

text \<open>\<^verbatim>\<open>int(x)\<close> of a float truncates towards zero.\<close>

definition py_int :: "real \<Rightarrow> int" where
  "py_int x = (if x \<ge> 0 then \<lfloor>x\<rfloor> else \<lceil>x\<rceil>)"

definition resource_names :: "(string \<times> string) list" where
  "resource_names = [(''hdd'', ''storage''), (''bw'', ''bandwidth''), (''mem'', ''memory'')]"

text \<open>A value of the response dictionary as the object Python holds.\<close>

fun field_pyval :: "field \<Rightarrow> pyval" where
  "field_pyval (Info s) = PStr s"
| "field_pyval (Resource r) =
     PDict [(''per'', PFloat (r_per r)),
            (''total_display'', PFloat (total_display r)),
            (''total_mag'', PStr (case total_mag r of GB \<Rightarrow> ''GB'' | TB \<Rightarrow> ''TB'')),
            (''total'', PFloat (r_total r)),
            (''used_display'', PFloat (used_display r)),
            (''used_mag'', PStr (case used_mag r of GB \<Rightarrow> ''GB'' | TB \<Rightarrow> ''TB'')),
            (''used'', PFloat (r_used r)),
            (''free_display'', PFloat (free_display r)),
            (''free_mag'', PStr (case free_mag r of GB \<Rightarrow> ''GB'' | TB \<Rightarrow> ''TB'')),
            (''free'', PFloat (r_free r))]"

definition lookup :: "(string \<times> 'a) list \<Rightarrow> string \<Rightarrow> exn + 'a" where
  "lookup d k = (case map_of d k of None \<Rightarrow> Inl (Exn KeyError (py_repr k)) | Some v \<Rightarrow> Inr v)"

text \<open>
  The dictionary stored under a resource's display name in the loop
  \<^verbatim>\<open>for resource_type in RESOURCE_TYPES\<close> of \<^verbatim>\<open>get_vps_data\<close>. The multiplier is chosen
  from \<^verbatim>\<open>total_mag\<close> and applied to all three display values.
\<close>

definition resource_entry :: "resource_data \<Rightarrow> pyval" where
  "resource_entry resource_data =
     (let multiplier = (if total_mag resource_data = TB then 1024 else 1);
          total_gb = fmul (total_display resource_data) (Fin multiplier);
          used_gb = fmul (used_display resource_data) (Fin multiplier);
          free_gb = fmul (free_display resource_data) (Fin multiplier)
      in PDict [(''total'', PFloat total_gb),
                (''used'', PFloat used_gb),
                (''free'', PFloat free_gb),
                (''usage'', PFloat (r_per resource_data))])"

text \<open>The loop itself: a missing key raises \<^verbatim>\<open>KeyError\<close> and ends it.\<close>

fun add_resources ::
  "string list \<Rightarrow> (string \<times> string) list \<Rightarrow> (string \<times> field) list \<Rightarrow> (string \<times> pyval) list
     \<Rightarrow> exn + (string \<times> pyval) list" where
  "add_resources [] post_flags response output = Inr output"
| "add_resources (resource_type # rest) post_flags response output =
     (case lookup post_flags resource_type of
        Inl x \<Rightarrow> Inl x
      | Inr flag \<Rightarrow>
          if flag = ''true'' then
            (case lookup response resource_type of
               Inl x \<Rightarrow> Inl x
             | Inr (Info s) \<Rightarrow>
                 Inl (Exn TypeError (''string indices must be integers, not '' @ py_repr ''str''))
             | Inr (Resource resource_data) \<Rightarrow>
                 (case lookup resource_names resource_type of
                    Inl x \<Rightarrow> Inl x
                  | Inr name \<Rightarrow>
                      add_resources rest post_flags response
                        (AList.update name (resource_entry resource_data) output)))
          else add_resources rest post_flags response output)"

text \<open>The dictionary \<^verbatim>\<open>post_flags\<close> that \<^verbatim>\<open>get_vps_data\<close> builds from the configuration.\<close>

definition make_post_flags :: "ServerConfig \<Rightarrow> (string \<times> string) list" where
  "make_post_flags config =
     [(''key'', key config), (''hash'', hash_value config), (''action'', ''info''),
      (''bw'', ''true''), (''hdd'', ''true''), (''mem'', ''true'')]"

text \<open>
  The body of the \<^verbatim>\<open>try\<close> block of \<^verbatim>\<open>get_vps_data\<close>, with the number of POST requests it
  sent: none when the configuration does not load, one otherwise.
\<close>

definition get_vps_data_try :: "env \<Rightarrow> (exn + pyval) \<times> nat" where
  "get_vps_data_try e =
     (case load_config e of
        Inl x \<Rightarrow> (Inl x, 0)
      | Inr config \<Rightarrow>
          (let post_flags = make_post_flags config
           in case api_response e post_flags API_URL of
                Inl x \<Rightarrow> (Inl x, 1)
              | Inr response \<Rightarrow>
                  if response = [] then (Inl (Exn RuntimeError ''Empty response from the server''), 1)
                  else
                    (case lookup response ''hostname'' of
                       Inl x \<Rightarrow> (Inl x, 1)
                     | Inr hostname \<Rightarrow>
                    (case lookup response ''ipaddress'' of
                       Inl x \<Rightarrow> (Inl x, 1)
                     | Inr ipaddress \<Rightarrow>
                    (case add_resources RESOURCE_TYPES post_flags response
                            [(''hostname'', field_pyval hostname),
                             (''ip'', field_pyval ipaddress),
                             (''last_update'', PInt (py_int (time_assembly e)))] of
                       Inl x \<Rightarrow> (Inl x, 1)
                     | Inr output \<Rightarrow> (Inr (PDict output), 1))))))"

definition cache_fresh :: "cache \<Rightarrow> real \<Rightarrow> bool" where
  "cache_fresh c current_time =
     (case cached_data c of
        None \<Rightarrow> False
      | Some d \<Rightarrow> truthy d \<and> current_time - last_update c < CACHE_DURATION)"

text \<open>
  \<^verbatim>\<open>get_vps_data\<close>, as run by one caller holding the lock: the result or the exception
  raised, the globals afterwards, and the number of POST requests sent.
\<close>

definition get_vps_data :: "env \<Rightarrow> cache \<Rightarrow> (exn + pyval) \<times> cache \<times> nat" where
  "get_vps_data e c =
     (let current_time = time_entry e;
          refreshed =
            (case get_vps_data_try e of
               (Inr output, n) \<Rightarrow>
                 (Inr output, \<lparr>cached_data = Some output, last_update = current_time\<rparr>, n)
             | (Inl x, n) \<Rightarrow>
                 (Inl (Exn RuntimeError (''Failed to fetch VPS data: '' @ exc_str x)), c, n))
      in case cached_data c of
           None \<Rightarrow> refreshed
         | Some d \<Rightarrow>
             if truthy d \<and> current_time - last_update c < CACHE_DURATION then (Inr d, c, 0)
             else refreshed)"

text \<open>
  Concurrent callers. Everything \<^verbatim>\<open>get_vps_data\<close> does after reading the clock runs inside
  \<^verbatim>\<open>with cache_lock\<close>, so N callers that arrive together run the locked part one after
  another, in the order in which they get the lock, each with the entry time it read before
  waiting. The list holds the callers in that order; the result is what each caller gets,
  the globals after the last one, and the POST requests sent in total.
\<close>

fun callers :: "env list \<Rightarrow> cache \<Rightarrow> (exn + pyval) list \<times> cache \<times> nat" where
  "callers [] c = ([], c, 0)"
| "callers (e # es) c =
     (case get_vps_data e c of
        (r, c', n) \<Rightarrow>
          (case callers es c' of
             (rs, c'', m) \<Rightarrow> (r # rs, c'', n + m)))"

section \<open>The two endpoints\<close>

text \<open>A handler returns the body, the status and the globals and POST count of the call.\<close>

definition status :: "env \<Rightarrow> cache \<Rightarrow> (pyval \<times> nat) \<times> cache \<times> nat" where
  "status e c =
     (case get_vps_data e c of
        (Inr d, c', n) \<Rightarrow> ((d, 200), c', n)
      | (Inl x, c', n) \<Rightarrow> ((PDict [(''error'', PStr (exc_str x))], 500), c', n))"

text \<open>
  The body of the loop of \<^verbatim>\<open>metrics\<close> for one item of \<^verbatim>\<open>data["resources"]\<close>. How an
  f-string prints a value is the parameter \<open>fmt\<close>.
\<close>

definition metrics_lines :: "(pyval \<Rightarrow> string) \<Rightarrow> string \<Rightarrow> pyval \<Rightarrow> exn + string list" where
  "metrics_lines fmt resource_type resource_data =
     (let base_name = ''vps_'' @ resource_type in
      case getitem resource_data ''total'' of Inl x \<Rightarrow> Inl x | Inr t \<Rightarrow>
      case getitem t ''value'' of Inl x \<Rightarrow> Inl x | Inr tv \<Rightarrow>
      case getitem resource_data ''used'' of Inl x \<Rightarrow> Inl x | Inr u \<Rightarrow>
      case getitem u ''value'' of Inl x \<Rightarrow> Inl x | Inr uv \<Rightarrow>
      case getitem resource_data ''percentage_used'' of Inl x \<Rightarrow> Inl x | Inr pu \<Rightarrow>
        Inr [''# HELP '' @ base_name @ ''_total Total '' @ resource_type @ '' in bytes'',
             ''# TYPE '' @ base_name @ ''_total gauge'',
             base_name @ ''_total '' @ fmt tv,
             ''# HELP '' @ base_name @ ''_used Used '' @ resource_type @ '' in bytes'',
             ''# TYPE '' @ base_name @ ''_used gauge'',
             base_name @ ''_used '' @ fmt uv,
             ''# HELP '' @ base_name @ ''_percentage_used Percentage of '' @ resource_type @ '' used'',
             ''# TYPE '' @ base_name @ ''_percentage_used gauge'',
             base_name @ ''_percentage_used '' @ fmt pu])"

fun metrics_loop :: "(pyval \<Rightarrow> string) \<Rightarrow> (string \<times> pyval) list \<Rightarrow> string list \<Rightarrow> exn + string list" where
  "metrics_loop fmt [] prometheus_lines = Inr prometheus_lines"
| "metrics_loop fmt ((resource_type, resource_data) # rest) prometheus_lines =
     (case metrics_lines fmt resource_type resource_data of
        Inl x \<Rightarrow> Inl x
      | Inr ls \<Rightarrow> metrics_loop fmt rest (prometheus_lines @ ls))"

fun join_lines :: "string list \<Rightarrow> string" where
  "join_lines [] = []"
| "join_lines [l] = l"
| "join_lines (l # ls) = l @ [CHR 0x0A] @ join_lines ls"

definition metrics :: "(pyval \<Rightarrow> string) \<Rightarrow> env \<Rightarrow> cache \<Rightarrow> (string \<times> nat) \<times> cache \<times> nat" where
  "metrics fmt e c =
     (case get_vps_data e c of
        (Inl x, c', n) \<Rightarrow> ((''# ERROR: '' @ exc_str x, 500), c', n)
      | (Inr data, c', n) \<Rightarrow>
          (case (case getitem data ''resources'' of
                   Inl x \<Rightarrow> Inl x
                 | Inr resources \<Rightarrow>
                     (case items resources of
                        Inl x \<Rightarrow> Inl x
                      | Inr kvs \<Rightarrow> metrics_loop fmt kvs [])) of
             Inl x \<Rightarrow> ((''# ERROR: '' @ exc_str x, 500), c', n)
           | Inr prometheus_lines \<Rightarrow> ((join_lines prometheus_lines, 200), c', n)))"

section \<open>What a match says about the text\<close>

text \<open>
  The text a pattern matched is its literals with the groups of the stars in between,
  and every group of a star consists of characters of the star's class.
\<close>

primrec all_in :: "cls \<Rightarrow> string \<Rightarrow> bool" where
  "all_in k [] = True"
| "all_in k (c # cs) = (in_cls k c \<and> all_in k cs)"

fun render :: "item list \<Rightarrow> string list \<Rightarrow> string" where
  "render [] gs = []"
| "render (Lit c # p) gs = c # render p gs"
| "render (Star k # p) [] = render p []"
| "render (Star k # p) (g # gs) = g @ render p gs"

fun conforms :: "item list \<Rightarrow> string list \<Rightarrow> bool" where
  "conforms [] gs = (gs = [])"
| "conforms (Lit c # p) gs = conforms p gs"
| "conforms (Star k # p) [] = False"
| "conforms (Star k # p) (g # gs) = (all_in k g \<and> conforms p gs)"

text \<open>
  A tag block as the upstream writes it, \<^verbatim>\<open><name>content</name'>\<close>, and the contents
  made of decimal digits and commas only.
\<close>

definition tag_block :: "string \<Rightarrow> string \<Rightarrow> string \<Rightarrow> string" where
  "tag_block name content name' = ''<'' @ name @ ''>'' @ content @ ''</'' @ name' @ ''>''"

primrec digits_and_commas :: "string \<Rightarrow> bool" where
  "digits_and_commas [] = True"
| "digits_and_commas (c # cs) = ((is_digit c \<or> c = CHR '','') \<and> digits_and_commas cs)"

section \<open>Sample inputs\<close>

text \<open>A configuration that loads, and upstream bodies used to run the definitions.\<close>

definition sample_config :: "exn + ServerConfig" where
  "sample_config = Inr \<lparr>key = ''k'', hash_value = ''h'', should_loop = False, sleep_minutes = 5\<rparr>"

text \<open>A disk of 2000 GiB with 500 GiB used and 1500 GiB free; 1 GiB of bandwidth and memory, half used.\<close>

definition body_two_tb :: string where
  "body_two_tb =
     ''<hostname>h1</hostname><ipaddress>1.2.3.4</ipaddress><hdd>2147483648000,536870912000,1610612736000,25</hdd><bw>1073741824,536870912,536870912,50</bw><mem>1073741824,536870912,536870912,50</mem>''"

definition env_two_tb :: env where
  "env_two_tb =
     \<lparr>time_entry = 1000, config_source = sample_config,
      upstream = (\<lambda>flags url. Inr body_two_tb), time_assembly = 1000.5\<rparr>"

definition snapshot_two_tb :: pyval where
  "snapshot_two_tb =
     PDict [(''hostname'', PStr ''h1''), (''ip'', PStr ''1.2.3.4''), (''last_update'', PInt 1000),
            (''storage'', PDict [(''total'', PFloat (Fin 2000)), (''used'', PFloat (Fin 512000)),
                                 (''free'', PFloat (Fin 1500)), (''usage'', PFloat (Fin 25))]),
            (''bandwidth'', PDict [(''total'', PFloat (Fin 1)), (''used'', PFloat (Fin (1 / 2))),
                                   (''free'', PFloat (Fin (1 / 2))), (''usage'', PFloat (Fin 50))]),
            (''memory'', PDict [(''total'', PFloat (Fin 1)), (''used'', PFloat (Fin (1 / 2))),
                                (''free'', PFloat (Fin (1 / 2))), (''usage'', PFloat (Fin 50))])]"

text \<open>A cache holding the snapshot of the first body, fetched at time 1000.\<close>

definition cache_two_tb :: cache where
  "cache_two_tb = \<lparr>cached_data = Some snapshot_two_tb, last_update = 1000\<rparr>"

text \<open>A call at time 2000 when \<^verbatim>\<open>tokens.txt\<close> has a single line: the configuration does not load.\<close>

definition env_no_config :: env where
  "env_no_config =
     \<lparr>time_entry = 2000, config_source = Inl (Exn IndexError ''list index out of range''),
      upstream = (\<lambda>flags url. Inr body_two_tb), time_assembly = 2000\<rparr>"

text \<open>A call at time 2000 when the POST times out.\<close>

definition env_down :: env where
  "env_down =
     \<lparr>time_entry = 2000, config_source = sample_config,
      upstream = (\<lambda>flags url. Inl ''Read timed out.''), time_assembly = 2000\<rparr>"

text \<open>A call 59 seconds after the fetch at time 1000, with the upstream down.\<close>

definition env_soon :: env where
  "env_soon =
     \<lparr>time_entry = 1059, config_source = sample_config,
      upstream = (\<lambda>flags url. Inl ''Read timed out.''), time_assembly = 1059\<rparr>"

text \<open>Calls 60 and 100 seconds after the fetch at time 1000, with the upstream answering again.\<close>

definition env_later :: env where
  "env_later =
     \<lparr>time_entry = 1060, config_source = sample_config,
      upstream = (\<lambda>flags url. Inr body_two_tb), time_assembly = 1060\<rparr>"

definition env_retry :: env where
  "env_retry =
     \<lparr>time_entry = 1100, config_source = sample_config,
      upstream = (\<lambda>flags url. Inr body_two_tb), time_assembly = 1100\<rparr>"

text \<open>A body whose disk block has a fractional total.\<close>

definition body_fractional :: string where
  "body_fractional =
     ''<hostname>h1</hostname><ipaddress>1.2.3.4</ipaddress><hdd>1.5,2,3,4</hdd><bw>1073741824,536870912,536870912,50</bw><mem>1073741824,536870912,536870912,50</mem>''"

definition env_fractional :: env where
  "env_fractional =
     \<lparr>time_entry = 2000, config_source = sample_config,
      upstream = (\<lambda>flags url. Inr body_fractional), time_assembly = 2000\<rparr>"

text \<open>A body whose disk block has an empty fourth group; 1 GiB everywhere, half used.\<close>

definition body_empty_per :: string where
  "body_empty_per =
     ''<hostname>h1</hostname><ipaddress>1.2.3.4</ipaddress><hdd>1073741824,536870912,536870912,</hdd><bw>1073741824,536870912,536870912,50</bw><mem>1073741824,536870912,536870912,50</mem>''"

definition env_empty_per :: env where
  "env_empty_per =
     \<lparr>time_entry = 1000, config_source = sample_config,
      upstream = (\<lambda>flags url. Inr body_empty_per), time_assembly = 1000.5\<rparr>"

definition snapshot_one_gb :: pyval where
  "snapshot_one_gb =
     PDict [(''hostname'', PStr ''h1''), (''ip'', PStr ''1.2.3.4''), (''last_update'', PInt 1000),
            (''storage'', PDict [(''total'', PFloat (Fin 1)), (''used'', PFloat (Fin (1 / 2))),
                                 (''free'', PFloat (Fin (1 / 2))), (''usage'', PFloat (Fin 50))]),
            (''bandwidth'', PDict [(''total'', PFloat (Fin 1)), (''used'', PFloat (Fin (1 / 2))),
                                   (''free'', PFloat (Fin (1 / 2))), (''usage'', PFloat (Fin 50))]),
            (''memory'', PDict [(''total'', PFloat (Fin 1)), (''used'', PFloat (Fin (1 / 2))),
                                (''free'', PFloat (Fin (1 / 2))), (''usage'', PFloat (Fin 50))])]"


section \<open>An invariant of the response dictionary\<close>

text \<open>
  The loop of \<^verbatim>\<open>api_response\<close> stores a processed record under a resource tag and a
  string under an info tag, never the other way round.
\<close>

definition well_typed :: "(string \<times> field) list \<Rightarrow> bool" where
  "well_typed res =
     (\<forall>k v. map_of res k = Some v \<longrightarrow>
        (k \<in> set RESOURCE_TYPES \<longrightarrow> (\<exists>r. v = Resource r))
      \<and> (k \<in> set INFO_TYPES \<longrightarrow> (\<exists>s. v = Info s)))"

section \<open>Running the definitions\<close>

lemmas parser_defs =
  OUTER_PATTERN_def INNER_PATTERN_def SIMPLE_PATTERN_def is_word_def is_digit_def
  RESOURCE_TYPES_def INFO_TYPES_def group_def inner_groupdict_def finditer.simps re_match.simps

text \<open>Results far inside the finite range are themselves.\<close>

lemma DBL_OVERFLOW_pos: "2 ^ 64 < DBL_OVERFLOW"
proof -
  have "(2::real) ^ 970 * 2 \<le> 2 ^ 970 * 2 ^ 54" by simp
  then have "(2::real) ^ 970 + 2 ^ 970 \<le> 2 ^ 1024" by (simp add: power_add[symmetric])
  moreover have "(2::real) ^ 64 < 2 ^ 970" by (rule power_strict_increasing) simp_all
  ultimately show ?thesis by (simp add: DBL_OVERFLOW_def)
qed

lemma to_float_Fin: "- DBL_OVERFLOW < x \<Longrightarrow> x < DBL_OVERFLOW \<Longrightarrow> to_float x = Fin x"
  by (simp add: to_float_def)

lemma to_float_small: "\<bar>x\<bar> \<le> 2 ^ 64 \<Longrightarrow> to_float x = Fin x"
  using DBL_OVERFLOW_pos by (intro to_float_Fin) simp_all

lemmas processor_defs =
  process_resource_data_def py_float_def nat_of_digits_def digit_val_def py_div_def
  convert_bytes_to_readable_def BYTES_TO_GB_def GB_TO_TB_def py_repr_def fne_def to_float_small

lemmas fetch_defs =
  get_vps_data_try_def make_post_flags_def resource_entry_def load_config_def api_response_def lookup_def resource_names_def
  py_int_def RESOURCE_TYPES_def sample_config_def to_float_small

lemma response_two_tb:
  "api_response_loop (finditer OUTER_PATTERN body_two_tb) [] =
     Inr [(''hostname'', Info ''h1''), (''ipaddress'', Info ''1.2.3.4''),
          (''hdd'', Resource \<lparr>r_per = Fin 25, total_display = Fin (125 / 64), total_mag = TB,
              r_total = Fin 2147483648000, used_display = Fin 500, used_mag = GB, r_used = Fin 536870912000,
              free_display = Fin (375 / 256), free_mag = TB, r_free = Fin 1610612736000\<rparr>),
          (''bw'', Resource \<lparr>r_per = Fin 50, total_display = Fin 1, total_mag = GB,
              r_total = Fin 1073741824, used_display = Fin (1 / 2), used_mag = GB, r_used = Fin 536870912,
              free_display = Fin (1 / 2), free_mag = GB, r_free = Fin 536870912\<rparr>),
          (''mem'', Resource \<lparr>r_per = Fin 50, total_display = Fin 1, total_mag = GB,
              r_total = Fin 1073741824, used_display = Fin (1 / 2), used_mag = GB, r_used = Fin 536870912,
              free_display = Fin (1 / 2), free_mag = GB, r_free = Fin 536870912\<rparr>)]"
  by (simp add: body_two_tb_def parser_defs processor_defs)

lemma try_two_tb: "get_vps_data_try env_two_tb = (Inr snapshot_two_tb, 1)"
  by (simp add: fetch_defs env_two_tb_def response_two_tb snapshot_two_tb_def)

lemma get_two_tb:
  "get_vps_data env_two_tb initial_cache =
     (Inr snapshot_two_tb, \<lparr>cached_data = Some snapshot_two_tb, last_update = 1000\<rparr>, 1)"
  by (simp add: get_vps_data_def try_two_tb initial_cache_def) (simp add: env_two_tb_def)

section \<open>The usage percentage\<close>

lemma py_float_Fin:
  assumes "py_float s = Inr (Fin x)"
  shows "x = real (nat_of_digits s) \<and> 0 \<le> x \<and> x < DBL_OVERFLOW"
  using assms by (auto simp: py_float_def to_float_def split: if_splits)





section \<open>Folding to a common unit\<close>

text \<open>The unit is GB exactly below 1000 GiB.\<close>

lemma convert_bytes_unit:
  "snd (convert_bytes_to_readable (Fin v)) = GB \<longleftrightarrow> v / 2 ^ 30 < 1000"
proof -
  have "(1000 :: real) < 2 ^ 64" by simp
  with DBL_OVERFLOW_pos have "1000 < DBL_OVERFLOW" by (rule less_trans[rotated])
  then show ?thesis
    by (auto simp: convert_bytes_to_readable_def BYTES_TO_GB_def Let_def to_float_def)
qed

text \<open>For a finite total of a processed block the fold does recover \<open>v / 2^30\<close>.\<close>

lemma convert_bytes_Fin:
  assumes "0 \<le> t" and "t < DBL_OVERFLOW"
  shows "convert_bytes_to_readable (Fin t) =
           (if 1000 \<le> t / 2 ^ 30 then (Fin (t / 2 ^ 30 / 1024), TB) else (Fin (t / 2 ^ 30), GB))"
proof -
  have "t / 2 ^ 30 \<le> t" using assms(1) by (simp add: field_simps)
  with assms have a: "to_float (t / 2 ^ 30) = Fin (t / 2 ^ 30)"
    by (intro to_float_Fin) (simp_all add: less_le_trans[of "- DBL_OVERFLOW" 0])
  have "t / 2 ^ 30 / 1024 \<le> t" using assms(1) by (simp add: field_simps)
  with assms have b: "to_float (t / 2 ^ 30 / 1024) = Fin (t / 2 ^ 30 / 1024)"
    by (intro to_float_Fin) (simp_all add: less_le_trans[of "- DBL_OVERFLOW" 0])
  from a b show ?thesis
    by (simp add: convert_bytes_to_readable_def BYTES_TO_GB_def GB_TO_TB_def Let_def)
qed

lemma processed_total_gb:
  assumes "process_resource_data d = Inr r" and "r_total r = Fin t"
  shows "getitem (resource_entry r) ''total'' = Inr (PFloat (Fin (t / 2 ^ 30)))"
proof -
  from assms have p: "py_float (total d) = Inr (Fin t)"
    and c: "total_display r = fst (convert_bytes_to_readable (Fin t))"
           "total_mag r = snd (convert_bytes_to_readable (Fin t))"
    by (auto simp: process_resource_data_def split: sum.splits if_splits)
  from py_float_Fin[OF p] have t: "0 \<le> t" "t < DBL_OVERFLOW" by simp_all
  then have "t / 2 ^ 30 \<le> t" by (simp add: field_simps)
  with t have a: "to_float (t / 2 ^ 30) = Fin (t / 2 ^ 30)"
    by (intro to_float_Fin) (simp_all add: less_le_trans[of "- DBL_OVERFLOW" 0])
  from c a show ?thesis
    by (simp add: convert_bytes_Fin[OF t] resource_entry_def Let_def)
qed

text \<open>
  Claim C6. The fold back to GB does not recover \<open>v / 2^30\<close> for every value: the
  multiplier is taken from the unit of the total and applied to the used and free values
  as well. For a disk of 2000 GiB with 500 GiB used, the used value is normalised to
  500 GB and then multiplied by 1024, so the snapshot reports 512000 GB used where
  \<open>v / 2^30\<close> is 500.
\<close>

theorem used_gb_scaled_by_total_unit:
  "get_vps_data env_two_tb initial_cache =
     (Inr snapshot_two_tb, \<lparr>cached_data = Some snapshot_two_tb, last_update = 1000\<rparr>, 1)
   \<and> getitem snapshot_two_tb ''storage''
       = Inr (PDict [(''total'', PFloat (Fin 2000)), (''used'', PFloat (Fin 512000)),
                     (''free'', PFloat (Fin 1500)), (''usage'', PFloat (Fin 25))])
   \<and> convert_bytes_to_readable (Fin 536870912000) = (Fin 500, GB)
   \<and> (536870912000 :: real) / BYTES_TO_GB = 500"
  by (simp add: get_two_tb)
     (simp add: snapshot_two_tb_def convert_bytes_to_readable_def BYTES_TO_GB_def to_float_small)

section \<open>Lemmas on the response dictionary and the fetch\<close>

lemma well_typed_update_resource:
  "well_typed res \<Longrightarrow> k \<in> set RESOURCE_TYPES \<Longrightarrow> well_typed (AList.update k (Resource r) res)"
  by (auto simp: well_typed_def update_conv' RESOURCE_TYPES_def INFO_TYPES_def)

lemma well_typed_update_info:
  "well_typed res \<Longrightarrow> k \<notin> set RESOURCE_TYPES \<Longrightarrow> well_typed (AList.update k (Info s) res)"
  by (auto simp: well_typed_def update_conv')

lemma api_response_loop_well_typed:
  "api_response_loop ms res = Inr res' \<Longrightarrow> well_typed res \<Longrightarrow> well_typed res'"
proof (induction ms res rule: api_response_loop.induct)
  case (1 result)
  then show ?case by simp
next
  case (2 block gs ms result)
  show ?case
  proof (cases "group gs 0 \<in> set RESOURCE_TYPES")
    case True
    with "2.prems" obtain data pd where
      d: "inner_groupdict block = Some data" "process_resource_data data = Inr pd"
      and r: "api_response_loop ms (AList.update (group gs 0) (Resource pd) result) = Inr res'"
      by (auto simp: Let_def split: option.splits sum.splits)
    from "2.IH"(1)[OF refl True d r] "2.prems"(2) True show ?thesis
      by (simp add: well_typed_update_resource)
  next
    case False
    note nres = this
    show ?thesis
    proof (cases "group gs 0 \<in> set INFO_TYPES")
      case True
      with nres "2.prems" obtain sg r where
        d: "re_match SIMPLE_PATTERN block = Some (sg, r)"
        and r: "api_response_loop ms (AList.update (group gs 0) (Info (group sg 1)) result) = Inr res'"
        by (auto simp: Let_def split: option.splits)
      from "2.IH"(2)[OF refl nres True d refl r] "2.prems"(2) nres show ?thesis
        by (simp add: well_typed_update_info)
    next
      case False
      with nres "2.prems" "2.IH"(3)[OF refl nres False] show ?thesis
        by (simp add: Let_def)
    qed
  qed
qed

lemma api_response_well_typed:
  "api_response e flags url = Inr res \<Longrightarrow> well_typed res"
  by (auto simp: api_response_def well_typed_def split: sum.splits
      dest!: api_response_loop_well_typed)


lemma try_shape:
  assumes "get_vps_data_try e = (Inr d, n)"
  shows "\<exists>cfg response h i rh rb rm.
           config_source e = Inr cfg \<and> n = 1
         \<and> api_response e (make_post_flags cfg) API_URL = Inr response
         \<and> map_of response ''hostname'' = Some (Info h)
         \<and> map_of response ''ipaddress'' = Some (Info i)
         \<and> map_of response ''hdd'' = Some (Resource rh)
         \<and> map_of response ''bw'' = Some (Resource rb)
         \<and> map_of response ''mem'' = Some (Resource rm)
         \<and> d = PDict [(''hostname'', PStr h), (''ip'', PStr i),
                       (''last_update'', PInt (py_int (time_assembly e))),
                       (''storage'', resource_entry rh),
                       (''bandwidth'', resource_entry rb),
                       (''memory'', resource_entry rm)]"
proof -
  from assms obtain cfg where cfg: "config_source e = Inr cfg"
    by (auto simp: get_vps_data_try_def load_config_def split: sum.splits)
  from assms cfg obtain response where
    resp: "api_response e (make_post_flags cfg) API_URL = Inr response"
    by (auto simp: get_vps_data_try_def load_config_def Let_def split: sum.splits)
  have wt: "well_typed response" using resp by (rule api_response_well_typed)
  from assms cfg resp obtain hv iv out where
    hv: "map_of response ''hostname'' = Some hv" and iv: "map_of response ''ipaddress'' = Some iv"
    and out: "add_resources RESOURCE_TYPES (make_post_flags cfg) response
               [(''hostname'', field_pyval hv), (''ip'', field_pyval iv),
                (''last_update'', PInt (py_int (time_assembly e)))] = Inr out"
    and d: "d = PDict out" and n: "n = 1"
    by (auto simp: get_vps_data_try_def load_config_def Let_def lookup_def
        split: sum.splits if_splits option.splits)
  from wt hv obtain h where h: "hv = Info h"
    by (auto simp: well_typed_def INFO_TYPES_def)
  from wt iv obtain i where i: "iv = Info i"
    by (auto simp: well_typed_def INFO_TYPES_def)
  from out obtain rh rb rm where
    "map_of response ''hdd'' = Some (Resource rh)"
    "map_of response ''bw'' = Some (Resource rb)"
    "map_of response ''mem'' = Some (Resource rm)"
    "out = [(''hostname'', field_pyval hv), (''ip'', field_pyval iv),
            (''last_update'', PInt (py_int (time_assembly e))),
            (''storage'', resource_entry rh), (''bandwidth'', resource_entry rb),
            (''memory'', resource_entry rm)]"
    by (auto simp: RESOURCE_TYPES_def make_post_flags_def lookup_def resource_names_def
        split: sum.splits option.splits field.splits)
  with cfg resp hv iv h i d n show ?thesis by auto
qed

lemma resource_entry_shape:
  "\<exists>t u f p. resource_entry r =
     PDict [(''total'', PFloat t), (''used'', PFloat u), (''free'', PFloat f), (''usage'', PFloat p)]"
  by (simp add: resource_entry_def Let_def)

lemma try_truthy: "get_vps_data_try e = (Inr d, n) \<Longrightarrow> truthy d"
  by (drule try_shape) auto

lemma try_posts: "snd (get_vps_data_try e) = (case config_source e of Inl x \<Rightarrow> 0 | Inr c \<Rightarrow> 1)"
  by (simp add: get_vps_data_try_def load_config_def Let_def split: sum.splits)

lemma get_vps_data_stale:
  "\<not> cache_fresh c (time_entry e) \<Longrightarrow>
     get_vps_data e c =
       (case get_vps_data_try e of
          (Inr output, n) \<Rightarrow> (Inr output, \<lparr>cached_data = Some output, last_update = time_entry e\<rparr>, n)
        | (Inl x, n) \<Rightarrow> (Inl (Exn RuntimeError (''Failed to fetch VPS data: '' @ exc_str x)), c, n))"
  by (auto simp: get_vps_data_def cache_fresh_def Let_def split: option.splits)

lemma get_vps_data_fresh:
  "cache_fresh c (time_entry e) \<Longrightarrow> cached_data c = Some d \<Longrightarrow> get_vps_data e c = (Inr d, c, 0)"
  by (simp add: get_vps_data_def cache_fresh_def Let_def)

lemma try_no_config:
  "get_vps_data_try env_no_config =
     (Inl (Exn RuntimeError ''Failed to load configuration: list index out of range''), 0)"
  by (simp add: get_vps_data_try_def load_config_def env_no_config_def)

lemma try_down:
  "get_vps_data_try env_down = (Inl (Exn RuntimeError ''API request failed: Read timed out.''), 1)"
  by (simp add: get_vps_data_try_def load_config_def api_response_def env_down_def sample_config_def)

lemma loop_fractional:
  "api_response_loop (finditer OUTER_PATTERN body_fractional) [] =
     Inl (Exn AttributeError
            (py_repr ''NoneType'' @ '' object has no attribute '' @ py_repr ''groupdict''))"
  by (simp add: body_fractional_def parser_defs)

lemma try_fractional:
  "get_vps_data_try env_fractional =
     (Inl (Exn AttributeError
             (py_repr ''NoneType'' @ '' object has no attribute '' @ py_repr ''groupdict'')), 1)"
  by (simp add: get_vps_data_try_def load_config_def api_response_def env_fractional_def
      sample_config_def loop_fractional)

lemma stale_two_tb:
  "\<not> cache_fresh cache_two_tb 2000" "\<not> cache_fresh cache_two_tb 1060"
  "\<not> cache_fresh cache_two_tb 1100" "cache_fresh cache_two_tb 1059"
  by (simp_all add: cache_fresh_def cache_two_tb_def CACHE_DURATION_def snapshot_two_tb_def)

lemma stale_initial: "\<not> cache_fresh initial_cache t"
  by (simp add: cache_fresh_def initial_cache_def)

lemma get_down_two_tb:
  "get_vps_data env_down cache_two_tb =
     (Inl (Exn RuntimeError ''Failed to fetch VPS data: API request failed: Read timed out.''),
      cache_two_tb, 1)"
proof -
  have "\<not> cache_fresh cache_two_tb (time_entry env_down)"
    by (simp add: env_down_def stale_two_tb)
  then show ?thesis by (simp add: get_vps_data_stale try_down)
qed

section \<open>The shape of a snapshot\<close>

text \<open>
  Claim C2, as amended. Every snapshot a successful fetch returns is a dictionary with
  exactly the keys hostname, ip, last_update, storage, bandwidth and memory, in that
  order: two strings, the integer time of assembly, and three resource records at the top
  level, each with exactly the float fields total, used, free and usage. There is no
  \<^verbatim>\<open>resources\<close> mapping around the three records.
\<close>

theorem snapshot_shape:
  assumes "get_vps_data_try e = (Inr d, n)"
  shows "\<exists>h i t1 u1 f1 p1 t2 u2 f2 p2 t3 u3 f3 p3.
           d = PDict [(''hostname'', PStr h), (''ip'', PStr i),
                      (''last_update'', PInt (py_int (time_assembly e))),
                      (''storage'', PDict [(''total'', PFloat t1), (''used'', PFloat u1),
                                           (''free'', PFloat f1), (''usage'', PFloat p1)]),
                      (''bandwidth'', PDict [(''total'', PFloat t2), (''used'', PFloat u2),
                                             (''free'', PFloat f2), (''usage'', PFloat p2)]),
                      (''memory'', PDict [(''total'', PFloat t3), (''used'', PFloat u3),
                                          (''free'', PFloat f3), (''usage'', PFloat p3)])]"
proof -
  from try_shape[OF assms] obtain h i rh rb rm where
    d: "d = PDict [(''hostname'', PStr h), (''ip'', PStr i),
                   (''last_update'', PInt (py_int (time_assembly e))),
                   (''storage'', resource_entry rh),
                   (''bandwidth'', resource_entry rb),
                   (''memory'', resource_entry rm)]"
    by blast
  show ?thesis unfolding d by (simp add: resource_entry_def Let_def)
qed

text \<open>The shape theorem at the snapshot of the first sample body.\<close>

theorem snapshot_shape_witness:
  "get_vps_data_try env_two_tb = (Inr snapshot_two_tb, 1)
   \<and> (\<exists>h i t1 u1 f1 p1 t2 u2 f2 p2 t3 u3 f3 p3.
           snapshot_two_tb = PDict [(''hostname'', PStr h), (''ip'', PStr i),
                      (''last_update'', PInt (py_int (time_assembly env_two_tb))),
                      (''storage'', PDict [(''total'', PFloat t1), (''used'', PFloat u1),
                                           (''free'', PFloat f1), (''usage'', PFloat p1)]),
                      (''bandwidth'', PDict [(''total'', PFloat t2), (''used'', PFloat u2),
                                             (''free'', PFloat f2), (''usage'', PFloat p2)]),
                      (''memory'', PDict [(''total'', PFloat t3), (''used'', PFloat u3),
                                          (''free'', PFloat f3), (''usage'', PFloat p3)])])"
  using try_two_tb snapshot_shape [OF try_two_tb] by blast

text \<open>
  Claim C2 as stated fails: the snapshot of the first sample body has no key
  \<^verbatim>\<open>resources\<close>, its storage record sits at the top level, and that record has no field
  \<^verbatim>\<open>total_gb\<close>.
\<close>

theorem snapshot_has_no_resources_key:
  "get_vps_data_try env_two_tb = (Inr snapshot_two_tb, 1)
   \<and> getitem snapshot_two_tb ''resources'' = Inl (Exn KeyError (py_repr ''resources''))
   \<and> getitem snapshot_two_tb ''storage''
       = Inr (PDict [(''total'', PFloat (Fin 2000)), (''used'', PFloat (Fin 512000)),
                     (''free'', PFloat (Fin 1500)), (''usage'', PFloat (Fin 25))])
   \<and> getitem (PDict [(''total'', PFloat (Fin 2000)), (''used'', PFloat (Fin 512000)),
                      (''free'', PFloat (Fin 1500)), (''usage'', PFloat (Fin 25))]) ''total_gb''
       = Inl (Exn KeyError (py_repr ''total_gb''))"
  by (simp add: try_two_tb) (simp add: snapshot_two_tb_def)

section \<open>The metrics endpoint\<close>

text \<open>
  Claim C1. For a call that refreshes the cache, the metrics handler answers every
  successful pipeline result with the single line \<^verbatim>\<open># ERROR: 'resources'\<close> and status
  500, not with gauge lines: it subscripts the snapshot with \<^verbatim>\<open>"resources"\<close>, a key the
  pipeline never stores, and the \<^verbatim>\<open>KeyError\<close> lands in its own \<^verbatim>\<open>except\<close> clause. A
  pipeline error gives the line \<^verbatim>\<open># ERROR: <message>\<close> and status 500, as the claim says.
\<close>

theorem metrics_reports_error:
  assumes "\<not> cache_fresh c (time_entry e)"
  shows "(\<forall>d c' n. get_vps_data e c = (Inr d, c', n) \<longrightarrow>
            metrics fmt e c = ((''# ERROR: '' @ py_repr ''resources'', 500), c', n))
       \<and> (\<forall>x c' n. get_vps_data e c = (Inl x, c', n) \<longrightarrow>
            metrics fmt e c = ((''# ERROR: '' @ exc_str x, 500), c', n))"
proof (intro conjI allI impI)
  fix d c' n assume g: "get_vps_data e c = (Inr d, c', n)"
  with assms have "get_vps_data_try e = (Inr d, n)"
    by (auto simp: get_vps_data_stale split: prod.splits sum.splits)
  from try_shape[OF this] have "getitem d ''resources'' = Inl (Exn KeyError (py_repr ''resources''))"
    by auto
  with g show "metrics fmt e c = ((''# ERROR: '' @ py_repr ''resources'', 500), c', n)"
    by (simp add: metrics_def)
next
  fix x c' n assume "get_vps_data e c = (Inl x, c', n)"
  then show "metrics fmt e c = ((''# ERROR: '' @ exc_str x, 500), c', n)"
    by (simp add: metrics_def)
qed

text \<open>The metrics handler on a successful fetch and on a failed one.\<close>

theorem metrics_reports_error_witness:
  "\<not> cache_fresh initial_cache (time_entry env_two_tb)
   \<and> get_vps_data env_two_tb initial_cache = (Inr snapshot_two_tb, cache_two_tb, 1)
   \<and> metrics (\<lambda>v. []) env_two_tb initial_cache
       = ((''# ERROR: '' @ py_repr ''resources'', 500), cache_two_tb, 1)
   \<and> \<not> cache_fresh cache_two_tb (time_entry env_down)
   \<and> metrics (\<lambda>v. []) env_down cache_two_tb
       = ((''# ERROR: Failed to fetch VPS data: API request failed: Read timed out.'', 500),
          cache_two_tb, 1)"
proof -
  have s1: "\<not> cache_fresh initial_cache (time_entry env_two_tb)" by (rule stale_initial)
  have s2: "\<not> cache_fresh cache_two_tb (time_entry env_down)"
    by (simp add: env_down_def stale_two_tb)
  have g1: "get_vps_data env_two_tb initial_cache = (Inr snapshot_two_tb, cache_two_tb, 1)"
    by (simp add: get_two_tb cache_two_tb_def)
  from metrics_reports_error [OF s1, of "\<lambda>v. []"] g1
  have m1: "metrics (\<lambda>v. []) env_two_tb initial_cache
       = ((''# ERROR: '' @ py_repr ''resources'', 500), cache_two_tb, 1)" by blast
  from metrics_reports_error [OF s2, of "\<lambda>v. []"] get_down_two_tb
  have m2: "metrics (\<lambda>v. []) env_down cache_two_tb
       = ((''# ERROR: Failed to fetch VPS data: API request failed: Read timed out.'', 500),
          cache_two_tb, 1)" by fastforce
  from s1 s2 g1 m1 m2 show ?thesis by blast
qed

section \<open>The cache gate\<close>

text \<open>
  Claim C4. When the cache is not fresh and the refresh fails with any exception, the
  call raises (a \<^verbatim>\<open>RuntimeError\<close> carrying the message of that exception) and leaves both
  globals, the cached entry and its timestamp, as they were.
\<close>

theorem failed_refresh_keeps_cache:
  assumes "\<not> cache_fresh c (time_entry e)" and "get_vps_data_try e = (Inl x, n)"
  shows "get_vps_data e c =
           (Inl (Exn RuntimeError (''Failed to fetch VPS data: '' @ exc_str x)), c, n)"
  using assms by (simp add: get_vps_data_stale)

text \<open>A refresh that fails on a timed-out POST, with a stale snapshot in the cache.\<close>

theorem failed_refresh_keeps_cache_witness:
  "\<not> cache_fresh cache_two_tb (time_entry env_down)
   \<and> get_vps_data_try env_down = (Inl (Exn RuntimeError ''API request failed: Read timed out.''), 1)
   \<and> get_vps_data env_down cache_two_tb =
       (Inl (Exn RuntimeError ''Failed to fetch VPS data: API request failed: Read timed out.''),
        cache_two_tb, 1)"
proof -
  have s: "\<not> cache_fresh cache_two_tb (time_entry env_down)"
    by (simp add: env_down_def stale_two_tb)
  from failed_refresh_keeps_cache [OF s try_down] s try_down show ?thesis by simp
qed

text \<open>
  Claim C3, as amended. If a call fetches (the cache was not fresh) and succeeds, it sent
  exactly one POST, and any call entered less than 60 seconds after it returns the same
  snapshot, sends no POST and leaves the cache as it is. A call entered 60 seconds or more
  after the last successful fetch sends exactly one POST provided the configuration loads.
\<close>

theorem cache_window:
  "(\<not> cache_fresh c (time_entry e1) \<and> get_vps_data e1 c = (Inr d, c1, n1)
      \<and> time_entry e2 - time_entry e1 < 60
      \<longrightarrow> n1 = 1 \<and> get_vps_data e2 c1 = (Inr d, c1, 0))
   \<and> (60 \<le> time_entry e3 - last_update c3 \<and> config_source e3 = Inr cfg
      \<longrightarrow> snd (snd (get_vps_data e3 c3)) = 1)"
proof -
  have first: "n1 = 1 \<and> get_vps_data e2 c1 = (Inr d, c1, 0)"
    if a: "\<not> cache_fresh c (time_entry e1) \<and> get_vps_data e1 c = (Inr d, c1, n1)
      \<and> time_entry e2 - time_entry e1 < 60"
  proof -
    from a have t: "get_vps_data_try e1 = (Inr d, n1)"
      and c1: "c1 = \<lparr>cached_data = Some d, last_update = time_entry e1\<rparr>"
      by (auto simp: get_vps_data_stale split: prod.splits sum.splits)
    from try_shape[OF t] have n1: "n1 = 1" by blast
    have "cache_fresh c1 (time_entry e2)"
      using a try_truthy[OF t] by (simp add: c1 cache_fresh_def CACHE_DURATION_def)
    moreover have "cached_data c1 = Some d" by (simp add: c1)
    ultimately have "get_vps_data e2 c1 = (Inr d, c1, 0)"
      by (rule get_vps_data_fresh)
    with n1 show ?thesis by simp
  qed
  have second: "snd (snd (get_vps_data e3 c3)) = 1"
    if a: "60 \<le> time_entry e3 - last_update c3 \<and> config_source e3 = Inr cfg"
  proof -
    from a have "\<not> cache_fresh c3 (time_entry e3)"
      by (simp add: cache_fresh_def CACHE_DURATION_def split: option.splits)
    then have "snd (snd (get_vps_data e3 c3)) = snd (get_vps_data_try e3)"
      by (simp add: get_vps_data_stale split: prod.splits sum.splits)
    with a show ?thesis by (simp add: try_posts)
  qed
  from first second show ?thesis by blast
qed

text \<open>A fetch at time 1000, a call at 1059 with the upstream down, and a call at 1060.\<close>

theorem cache_window_witness:
  "\<not> cache_fresh initial_cache (time_entry env_two_tb)
   \<and> get_vps_data env_two_tb initial_cache = (Inr snapshot_two_tb, cache_two_tb, 1)
   \<and> time_entry env_soon - time_entry env_two_tb < 60
   \<and> get_vps_data env_soon cache_two_tb = (Inr snapshot_two_tb, cache_two_tb, 0)
   \<and> 60 \<le> time_entry env_later - last_update cache_two_tb
   \<and> config_source env_later = sample_config
   \<and> snd (snd (get_vps_data env_later cache_two_tb)) = 1"
proof -
  have s1: "\<not> cache_fresh initial_cache (time_entry env_two_tb)" by (rule stale_initial)
  have g1: "get_vps_data env_two_tb initial_cache = (Inr snapshot_two_tb, cache_two_tb, 1)"
    by (simp add: get_two_tb cache_two_tb_def)
  have t: "time_entry env_soon - time_entry env_two_tb < 60"
    by (simp add: env_soon_def env_two_tb_def)
  have l: "60 \<le> time_entry env_later - last_update cache_two_tb"
    by (simp add: env_later_def cache_two_tb_def)
  have cf: "config_source env_later =
      Inr \<lparr>key = ''k'', hash_value = ''h'', should_loop = False, sleep_minutes = 5\<rparr>"
    by (simp add: env_later_def sample_config_def)
  from cache_window [of initial_cache env_two_tb snapshot_two_tb cache_two_tb 1 env_soon
      env_later cache_two_tb "\<lparr>key = ''k'', hash_value = ''h'', should_loop = False, sleep_minutes = 5\<rparr>"]
    s1 g1 t l cf
  show ?thesis by (simp add: sample_config_def)
qed

text \<open>
  Claim C3 as stated fails twice. A call at time 1059 succeeds from the cache filled at
  time 1000, and a call 41 seconds later, at 1100, sends a POST. A call 1000 seconds
  after the last successful fetch sends no POST when the configuration does not load.
\<close>

theorem cache_window_counterexample:
  "get_vps_data env_soon cache_two_tb = (Inr snapshot_two_tb, cache_two_tb, 0)
   \<and> time_entry env_retry - time_entry env_soon < 60
   \<and> snd (snd (get_vps_data env_retry cache_two_tb)) = 1
   \<and> 61 \<le> time_entry env_no_config - last_update cache_two_tb
   \<and> snd (snd (get_vps_data env_no_config cache_two_tb)) = 0"
proof -
  have "cache_fresh cache_two_tb (time_entry env_soon)"
    by (simp add: env_soon_def stale_two_tb)
  then have a: "get_vps_data env_soon cache_two_tb = (Inr snapshot_two_tb, cache_two_tb, 0)"
    by (rule get_vps_data_fresh) (simp add: cache_two_tb_def)
  have b: "time_entry env_retry - time_entry env_soon < 60"
    by (simp add: env_retry_def env_soon_def)
  have "\<not> cache_fresh cache_two_tb (time_entry env_retry)"
    by (simp add: env_retry_def stale_two_tb)
  then have "snd (snd (get_vps_data env_retry cache_two_tb)) = snd (get_vps_data_try env_retry)"
    by (simp add: get_vps_data_stale split: prod.splits sum.splits)
  then have c: "snd (snd (get_vps_data env_retry cache_two_tb)) = 1"
    by (simp add: try_posts env_retry_def sample_config_def)
  have d: "61 \<le> time_entry env_no_config - last_update cache_two_tb"
    by (simp add: env_no_config_def cache_two_tb_def)
  have "\<not> cache_fresh cache_two_tb (time_entry env_no_config)"
    by (simp add: env_no_config_def stale_two_tb)
  then have e: "snd (snd (get_vps_data env_no_config cache_two_tb)) = 0"
    by (simp add: get_vps_data_stale try_no_config)
  from a b c d e show ?thesis by blast
qed

section \<open>Error propagation\<close>

text \<open>
  Claim C8, as amended. No error of a refresh is recovered from and no call sends more
  than one POST, but the errors are not passed on unchanged: \<^verbatim>\<open>get_vps_data\<close> raises a
  \<^verbatim>\<open>RuntimeError\<close> whose message is \<^verbatim>\<open>Failed to fetch VPS data: \<close> followed by the message
  of the error below, where a configuration failure already reads
  \<^verbatim>\<open>Failed to load configuration: ...\<close> and a failed POST \<^verbatim>\<open>API request failed: ...\<close>;
  an error of the parsing loop is wrapped once. The cache is left as it was, and both
  handlers answer with that message and status 500.
\<close>

theorem errors_reach_caller_wrapped:
  assumes "\<not> cache_fresh c (time_entry e)"
  shows "(config_source e = Inl x \<longrightarrow>
            get_vps_data e c =
              (Inl (Exn RuntimeError
                 (''Failed to fetch VPS data: Failed to load configuration: '' @ exc_str x)), c, 0))
       \<and> (config_source e = Inr cfg \<and> upstream e (make_post_flags cfg) API_URL = Inl m \<longrightarrow>
            get_vps_data e c =
              (Inl (Exn RuntimeError (''Failed to fetch VPS data: API request failed: '' @ m)), c, 1))
       \<and> (config_source e = Inr cfg \<and> upstream e (make_post_flags cfg) API_URL = Inr text
            \<and> api_response_loop (finditer OUTER_PATTERN text) [] = Inl y \<longrightarrow>
            get_vps_data e c =
              (Inl (Exn RuntimeError (''Failed to fetch VPS data: '' @ exc_str y)), c, 1))
       \<and> (get_vps_data e c = (Inl z, c', n) \<longrightarrow>
            c' = c \<and> n \<le> 1
          \<and> status e c = ((PDict [(''error'', PStr (exc_str z))], 500), c, n)
          \<and> metrics fmt e c = ((''# ERROR: '' @ exc_str z, 500), c, n))"
proof -
  have n: "snd (get_vps_data_try e) \<le> 1"
    by (simp add: try_posts split: sum.splits)
  have a: "config_source e = Inl x \<Longrightarrow> get_vps_data_try e =
      (Inl (Exn RuntimeError (''Failed to load configuration: '' @ exc_str x)), 0)"
    by (simp add: get_vps_data_try_def load_config_def)
  have b: "config_source e = Inr cfg \<Longrightarrow> upstream e (make_post_flags cfg) API_URL = Inl m \<Longrightarrow>
      get_vps_data_try e = (Inl (Exn RuntimeError (''API request failed: '' @ m)), 1)"
    by (simp add: get_vps_data_try_def load_config_def api_response_def)
  have c: "config_source e = Inr cfg \<Longrightarrow> upstream e (make_post_flags cfg) API_URL = Inr text \<Longrightarrow>
      api_response_loop (finditer OUTER_PATTERN text) [] = Inl y \<Longrightarrow>
      get_vps_data_try e = (Inl y, 1)"
    by (simp add: get_vps_data_try_def load_config_def api_response_def)
  have d: "c' = c \<and> n \<le> 1
          \<and> status e c = ((PDict [(''error'', PStr (exc_str z))], 500), c, n)
          \<and> metrics fmt e c = ((''# ERROR: '' @ exc_str z, 500), c, n)"
    if g: "get_vps_data e c = (Inl z, c', n)"
  proof -
    from g assms n have "c' = c" "n \<le> 1"
      by (auto simp: get_vps_data_stale split: prod.splits sum.splits)
    with g show ?thesis by (simp add: status_def metrics_def)
  qed
  from a b c d assms show ?thesis
    by (simp add: get_vps_data_stale)
qed

text \<open>
  Claim C8 as stated fails: the \<^verbatim>\<open>RequestException\<close> of a timed-out POST reaches the
  caller as a \<^verbatim>\<open>RuntimeError\<close> with a message prefixed twice.
\<close>

theorem errors_are_wrapped_counterexample:
  "upstream env_down (make_post_flags \<lparr>key = ''k'', hash_value = ''h'', should_loop = False, sleep_minutes = 5\<rparr>) API_URL
     = Inl ''Read timed out.''
   \<and> get_vps_data env_down cache_two_tb =
       (Inl (Exn RuntimeError ''Failed to fetch VPS data: API request failed: Read timed out.''),
        cache_two_tb, 1)
   \<and> Exn RuntimeError ''Failed to fetch VPS data: API request failed: Read timed out.''
       \<noteq> Exn RequestException ''Read timed out.''"
  by (simp add: get_down_two_tb) (simp add: env_down_def)

text \<open>A configuration failure, a timed-out POST and a malformed disk block, each on a stale cache.\<close>

theorem errors_reach_caller_wrapped_witness:
  "\<not> cache_fresh cache_two_tb (time_entry env_no_config)
   \<and> get_vps_data env_no_config cache_two_tb =
       (Inl (Exn RuntimeError
          ''Failed to fetch VPS data: Failed to load configuration: list index out of range''),
        cache_two_tb, 0)
   \<and> \<not> cache_fresh cache_two_tb (time_entry env_down)
   \<and> get_vps_data env_down cache_two_tb =
       (Inl (Exn RuntimeError ''Failed to fetch VPS data: API request failed: Read timed out.''),
        cache_two_tb, 1)
   \<and> status env_down cache_two_tb =
       ((PDict [(''error'', PStr ''Failed to fetch VPS data: API request failed: Read timed out.'')],
         500), cache_two_tb, 1)
   \<and> \<not> cache_fresh cache_two_tb (time_entry env_fractional)
   \<and> get_vps_data env_fractional cache_two_tb =
       (Inl (Exn RuntimeError
          (''Failed to fetch VPS data: '' @ py_repr ''NoneType''
             @ '' object has no attribute '' @ py_repr ''groupdict'')),
        cache_two_tb, 1)"
proof -
  let ?cfg = "\<lparr>key = ''k'', hash_value = ''h'', should_loop = False, sleep_minutes = 5\<rparr>"
  have s1: "\<not> cache_fresh cache_two_tb (time_entry env_no_config)"
    by (simp add: env_no_config_def stale_two_tb)
  have s2: "\<not> cache_fresh cache_two_tb (time_entry env_down)"
    by (simp add: env_down_def stale_two_tb)
  have s3: "\<not> cache_fresh cache_two_tb (time_entry env_fractional)"
    by (simp add: env_fractional_def stale_two_tb)
  have a: "get_vps_data env_no_config cache_two_tb =
       (Inl (Exn RuntimeError
          ''Failed to fetch VPS data: Failed to load configuration: list index out of range''),
        cache_two_tb, 0)"
    using errors_reach_caller_wrapped [OF s1, of "Exn IndexError ''list index out of range''"]
    by (simp add: env_no_config_def)
  have b: "get_vps_data env_down cache_two_tb =
       (Inl (Exn RuntimeError ''Failed to fetch VPS data: API request failed: Read timed out.''),
        cache_two_tb, 1)"
    using errors_reach_caller_wrapped [OF s2, of _ ?cfg "''Read timed out.''"]
    by (simp add: env_down_def sample_config_def)
  have c: "status env_down cache_two_tb =
       ((PDict [(''error'', PStr ''Failed to fetch VPS data: API request failed: Read timed out.'')],
         500), cache_two_tb, 1)"
    using errors_reach_caller_wrapped [OF s2,
        of _ _ _ _ _ "Exn RuntimeError ''Failed to fetch VPS data: API request failed: Read timed out.''"
           cache_two_tb 1] b
    by simp
  have d: "get_vps_data env_fractional cache_two_tb =
       (Inl (Exn RuntimeError
          (''Failed to fetch VPS data: '' @ py_repr ''NoneType''
             @ '' object has no attribute '' @ py_repr ''groupdict'')),
        cache_two_tb, 1)"
    using errors_reach_caller_wrapped [OF s3, of _ ?cfg _ body_fractional
        "Exn AttributeError (py_repr ''NoneType'' @ '' object has no attribute '' @ py_repr ''groupdict'')"] loop_fractional
    by (simp add: env_fractional_def sample_config_def)
  from s1 s2 s3 a b c d show ?thesis by blast
qed

section \<open>Lemmas on the patterns and the parsing loop\<close>

lemma re_match_sound:
  "re_match p s = Some (gs, r) \<Longrightarrow> conforms p gs \<and> s = render p gs @ r"
proof (induction p s arbitrary: gs r rule: re_match.induct)
  case (1 s)
  then show ?case by simp
next
  case (2 c p)
  then show ?case by simp
next
  case (3 c p x xs)
  then show ?case by (auto split: if_splits)
next
  case (4 k p s)
  from "4.prems" re_match.simps(4)[of k p s] have eq:
    "(case re_match p s of
        Some (gs, r) \<Rightarrow> Some ([] # gs, r)
      | None \<Rightarrow>
          (case s of
             [] \<Rightarrow> None
           | x # xs \<Rightarrow>
               if in_cls k x then
                 (case re_match (Star k # p) xs of
                    Some (g # gs, r) \<Rightarrow> Some ((x # g) # gs, r)
                  | _ \<Rightarrow> None)
               else None)) = Some (gs, r)"
    by simp
  show ?case
  proof (cases "re_match p s")
    case (Some m)
    then obtain gs' r' where m: "m = (gs', r')" by (cases m)
    with Some eq have "gs = [] # gs'" "r = r'" by auto
    with "4.IH"(1)[of gs' r'] Some m show ?thesis by simp
  next
    case None
    with eq obtain x xs g gs' where
      s: "s = x # xs" and k: "in_cls k x"
      and rec: "re_match (Star k # p) xs = Some (g # gs', r)" and gs: "gs = (x # g) # gs'"
      by (auto split: list.splits if_splits option.splits)
    from "4.IH"(2)[OF None s k rec] have "conforms (Star k # p) (g # gs')"
      and "xs = render (Star k # p) (g # gs') @ r" by auto
    with s k gs show ?thesis by simp
  qed
qed

lemma all_in_digit: "all_in Digit s = all_digits s"
  by (induction s) auto

lemma conforms_Star:
  "conforms (Star k # p) gs \<longleftrightarrow> (\<exists>g gs'. gs = g # gs' \<and> all_in k g \<and> conforms p gs')"
  by (cases gs) auto

lemma inner_match_shape:
  assumes "re_match INNER_PATTERN block = Some (gs, r)"
  shows "\<exists>a t u f p b. gs = [a, t, u, f, p, b]
           \<and> all_digits t \<and> all_digits u \<and> all_digits f \<and> all_digits p
           \<and> block = ''<'' @ a @ ''>'' @ t @ '','' @ u @ '','' @ f @ '','' @ p @ ''</'' @ b @ ''>'' @ r"
proof -
  from re_match_sound[OF assms] have c: "conforms INNER_PATTERN gs"
    and b: "block = render INNER_PATTERN gs @ r" by auto
  from c obtain a t u f p b' where gs: "gs = [a, t, u, f, p, b']"
    and d: "all_digits t" "all_digits u" "all_digits f" "all_digits p"
    by (auto simp: INNER_PATTERN_def conforms_Star all_in_digit)
  from b gs d show ?thesis by (simp add: INNER_PATTERN_def)
qed

lemma inner_groupdict_shape:
  assumes "inner_groupdict block = Some d"
  shows "all_digits (total d) \<and> all_digits (used d) \<and> all_digits (free d) \<and> all_digits (per d)
       \<and> (\<exists>a b r. block = ''<'' @ a @ ''>'' @ total d @ '','' @ used d @ '','' @ free d @ '',''
                              @ per d @ ''</'' @ b @ ''>'' @ r)"
proof -
  from assms obtain gs r where m: "re_match INNER_PATTERN block = Some (gs, r)"
    and d: "d = \<lparr>total = group gs 1, used = group gs 2, free = group gs 3, per = group gs 4\<rparr>"
    by (auto simp: inner_groupdict_def split: option.splits)
  from inner_match_shape[OF m] obtain a t u f p b where
    gs: "gs = [a, t, u, f, p, b]"
    and dig: "all_digits t" "all_digits u" "all_digits f" "all_digits p"
    and blk: "block = ''<'' @ a @ ''>'' @ t @ '','' @ u @ '','' @ f @ '','' @ p @ ''</'' @ b @ ''>'' @ r"
    by blast
  from d gs have fields: "total d = t" "used d = u" "free d = f" "per d = p"
    by (simp_all add: group_def)
  have "\<exists>a b r. block = ''<'' @ a @ ''>'' @ total d @ '','' @ used d @ '','' @ free d @ '',''
                              @ per d @ ''</'' @ b @ ''>'' @ r"
    unfolding fields using blk by blast
  with dig fields show ?thesis by simp
qed

lemma digits_no_angle:
  "all_digits s \<Longrightarrow> CHR ''>'' \<notin> set s \<and> CHR ''<'' \<notin> set s"
  by (induction s) (auto simp: is_digit_def)

lemma digits_and_commas_append:
  "digits_and_commas (xs @ ys) \<longleftrightarrow> digits_and_commas xs \<and> digits_and_commas ys"
  by (induction xs) auto

lemma all_digits_commas: "all_digits s \<Longrightarrow> digits_and_commas s"
  by (induction s) auto

lemma split_at_first:
  assumes "x \<notin> set xs" and "x \<notin> set xs'" and "xs @ x # ys = xs' @ x # ys'"
  shows "xs = xs' \<and> ys = ys'"
proof -
  have "takeWhile (\<lambda>y. y \<noteq> x) (xs @ x # ys) = xs"
    using assms(1) by (auto simp: takeWhile_tail)
  moreover have "takeWhile (\<lambda>y. y \<noteq> x) (xs' @ x # ys') = xs'"
    using assms(2) by (auto simp: takeWhile_tail)
  ultimately have "xs = xs'" using assms(3) by simp
  with assms(3) show ?thesis by simp
qed

lemma plain_block_rejected:
  assumes n: "CHR ''>'' \<notin> set name" and n': "CHR ''>'' \<notin> set name'"
    and c1: "CHR ''>'' \<notin> set content" and c2: "CHR ''<'' \<notin> set content"
    and bad: "\<not> digits_and_commas content"
  shows "inner_groupdict (tag_block name content name') = None"
proof (rule ccontr)
  assume "inner_groupdict (tag_block name content name') \<noteq> None"
  then obtain d where d: "inner_groupdict (tag_block name content name') = Some d" by auto
  from inner_groupdict_shape[OF d] obtain a b r where
    dig: "all_digits (total d)" "all_digits (used d)" "all_digits (free d)" "all_digits (per d)"
    and eq: "tag_block name content name' =
       ''<'' @ a @ ''>'' @ total d @ '','' @ used d @ '','' @ free d @ '','' @ per d
         @ ''</'' @ b @ ''>'' @ r"
    by blast
  let ?m = "total d @ '','' @ used d @ '','' @ free d @ '','' @ per d"
  have mid: "CHR ''>'' \<notin> set ?m" "CHR ''<'' \<notin> set ?m" "digits_and_commas ?m"
    using dig by (auto dest: digits_no_angle simp: digits_and_commas_append all_digits_commas)
  have "count_list (tag_block name content name') CHR ''>'' = 2"
    using n n' c1 by (simp add: tag_block_def)
  with eq have "count_list (''<'' @ a @ ''>'' @ ?m @ ''</'' @ b @ ''>'' @ r) CHR ''>'' = 2"
    by simp
  then have "count_list a CHR ''>'' = 0"
    by simp
  then have a: "CHR ''>'' \<notin> set a" by (simp add: count_list_0_iff)
  from eq have e1: "name @ CHR ''>'' # (content @ ''</'' @ name' @ ''>'')
       = a @ CHR ''>'' # (?m @ ''</'' @ b @ ''>'' @ r)"
    by (simp add: tag_block_def)
  from split_at_first[OF n a e1]
  have "name = a \<and> content @ ''</'' @ name' @ ''>'' = ?m @ ''</'' @ b @ ''>'' @ r" .
  then have e2: "content @ CHR ''<'' # (''/'' @ name' @ ''>'') = ?m @ CHR ''<'' # (''/'' @ b @ ''>'' @ r)"
    by simp
  from split_at_first[OF c2 mid(2) e2] have "content = ?m"
    by (rule conjunct1)
  with mid(3) bad show False by simp
qed

lemma process_empty_field:
  "total d = [] \<or> used d = [] \<or> free d = [] \<Longrightarrow> \<exists>x. process_resource_data d = Inl x"
  by (auto simp: process_resource_data_def py_float_def split: sum.splits)

lemma process_values:
  assumes "process_resource_data d = Inr r"
  shows "total d \<noteq> [] \<and> used d \<noteq> [] \<and> free d \<noteq> []
       \<and> r_total r = to_float (real (nat_of_digits (total d)))
       \<and> r_used r = to_float (real (nat_of_digits (used d)))
       \<and> r_free r = to_float (real (nat_of_digits (free d)))"
  using assms
  by (auto simp: process_resource_data_def py_float_def split: sum.splits if_splits)

lemma float_of_nat_nonneg: "float_nonneg (to_float (real n))"
proof -
  have "0 < DBL_OVERFLOW" using DBL_OVERFLOW_pos by (simp add: less_trans[of 0 "2 ^ 64"])
  then show ?thesis by (simp add: to_float_def)
qed

lemma api_response_loop_abort:
  assumes "(block, gs) \<in> set ms" and "group gs 0 \<in> set RESOURCE_TYPES"
    and "case inner_groupdict block of None \<Rightarrow> True
         | Some d \<Rightarrow> (\<exists>x. process_resource_data d = Inl x)"
  shows "\<exists>x. api_response_loop ms res = Inl x"
  using assms(1)
proof (induction ms arbitrary: res)
  case Nil
  then show ?case by simp
next
  case (Cons m ms)
  obtain b' gs' where m: "m = (b', gs')" by (cases m)
  show ?case
  proof (cases "m = (block, gs)")
    case True
    with assms(2,3) show ?thesis
      by (auto simp: Let_def split: option.splits sum.splits)
  next
    case False
    with Cons.prems have "(block, gs) \<in> set ms" by simp
    from Cons.IH[OF this] show ?thesis
      unfolding m by (auto simp: Let_def split: option.splits sum.splits)
  qed
qed

lemma finditer_fractional:
  "finditer OUTER_PATTERN body_fractional =
     [(''<hostname>h1</hostname>'', [''hostname'', ''h1'', ''hostname'']),
      (''<ipaddress>1.2.3.4</ipaddress>'', [''ipaddress'', ''1.2.3.4'', ''ipaddress'']),
      (''<hdd>1.5,2,3,4</hdd>'', [''hdd'', ''1.5,2,3,4'', ''hdd'']),
      (''<bw>1073741824,536870912,536870912,50</bw>'',
       [''bw'', ''1073741824,536870912,536870912,50'', ''bw'']),
      (''<mem>1073741824,536870912,536870912,50</mem>'',
       [''mem'', ''1073741824,536870912,536870912,50'', ''mem''])]"
  by (simp add: body_fractional_def parser_defs)

lemma inner_fractional: "inner_groupdict ''<hdd>1.5,2,3,4</hdd>'' = None"
  by (simp add: parser_defs)

lemma inner_empty_per:
  "inner_groupdict ''<hdd>1073741824,536870912,536870912,</hdd>'' =
     Some \<lparr>total = ''1073741824'', used = ''536870912'', free = ''536870912'', per = []\<rparr>"
  by (simp add: parser_defs)

lemma finditer_empty_per:
  "finditer OUTER_PATTERN body_empty_per =
     [(''<hostname>h1</hostname>'', [''hostname'', ''h1'', ''hostname'']),
      (''<ipaddress>1.2.3.4</ipaddress>'', [''ipaddress'', ''1.2.3.4'', ''ipaddress'']),
      (''<hdd>1073741824,536870912,536870912,</hdd>'',
       [''hdd'', ''1073741824,536870912,536870912,'', ''hdd'']),
      (''<bw>1073741824,536870912,536870912,50</bw>'',
       [''bw'', ''1073741824,536870912,536870912,50'', ''bw'']),
      (''<mem>1073741824,536870912,536870912,50</mem>'',
       [''mem'', ''1073741824,536870912,536870912,50'', ''mem''])]"
  by (simp add: body_empty_per_def parser_defs)

lemma response_empty_per:
  "api_response_loop (finditer OUTER_PATTERN body_empty_per) [] =
     Inr [(''hostname'', Info ''h1''), (''ipaddress'', Info ''1.2.3.4''),
          (''hdd'', Resource \<lparr>r_per = Fin 50, total_display = Fin 1, total_mag = GB,
              r_total = Fin 1073741824, used_display = Fin (1 / 2), used_mag = GB, r_used = Fin 536870912,
              free_display = Fin (1 / 2), free_mag = GB, r_free = Fin 536870912\<rparr>),
          (''bw'', Resource \<lparr>r_per = Fin 50, total_display = Fin 1, total_mag = GB,
              r_total = Fin 1073741824, used_display = Fin (1 / 2), used_mag = GB, r_used = Fin 536870912,
              free_display = Fin (1 / 2), free_mag = GB, r_free = Fin 536870912\<rparr>),
          (''mem'', Resource \<lparr>r_per = Fin 50, total_display = Fin 1, total_mag = GB,
              r_total = Fin 1073741824, used_display = Fin (1 / 2), used_mag = GB, r_used = Fin 536870912,
              free_display = Fin (1 / 2), free_mag = GB, r_free = Fin 536870912\<rparr>)]"
  by (simp add: body_empty_per_def parser_defs processor_defs)

lemma try_empty_per: "get_vps_data_try env_empty_per = (Inr snapshot_one_gb, 1)"
  by (simp add: fetch_defs env_empty_per_def response_empty_per snapshot_one_gb_def)

section \<open>Malformed resource blocks\<close>

text \<open>
  Claim C7, as amended. When the cache is not fresh, the configuration loads and the
  upstream body contains a block of a resource tag that the inner pattern does not match,
  or whose total, used or free group is empty, the fetch raises after its one POST: no
  snapshot is returned and the cache stays as it was. (A block whose fourth group alone
  is empty is not such a block: the program never parses that group.)
\<close>

theorem malformed_block_aborts_fetch:
  assumes "\<not> cache_fresh c (time_entry e)"
    and "config_source e = Inr cfg"
    and "upstream e (make_post_flags cfg) API_URL = Inr text"
    and "(block, gs) \<in> set (finditer OUTER_PATTERN text)"
    and "group gs 0 \<in> set RESOURCE_TYPES"
    and "case inner_groupdict block of None \<Rightarrow> True
         | Some d \<Rightarrow> total d = [] \<or> used d = [] \<or> free d = []"
  shows "\<exists>x. get_vps_data_try e = (Inl x, 1)
           \<and> get_vps_data e c =
               (Inl (Exn RuntimeError (''Failed to fetch VPS data: '' @ exc_str x)), c, 1)"
proof -
  from assms(6) have "case inner_groupdict block of None \<Rightarrow> True
         | Some d \<Rightarrow> (\<exists>x. process_resource_data d = Inl x)"
    by (auto split: option.splits intro: process_empty_field)
  from api_response_loop_abort[OF assms(4,5) this]
  obtain x where "api_response_loop (finditer OUTER_PATTERN text) [] = Inl x" by blast
  with assms(2,3) have "get_vps_data_try e = (Inl x, 1)"
    by (simp add: get_vps_data_try_def load_config_def api_response_def)
  with assms(1) show ?thesis by (simp add: get_vps_data_stale)
qed

text \<open>A disk block with the total 1.5, met on a stale cache.\<close>

theorem malformed_block_aborts_fetch_witness:
  "\<not> cache_fresh cache_two_tb (time_entry env_fractional)
   \<and> (''<hdd>1.5,2,3,4</hdd>'', [''hdd'', ''1.5,2,3,4'', ''hdd''])
        \<in> set (finditer OUTER_PATTERN body_fractional)
   \<and> inner_groupdict ''<hdd>1.5,2,3,4</hdd>'' = None
   \<and> (\<exists>x. get_vps_data_try env_fractional = (Inl x, 1)
          \<and> get_vps_data env_fractional cache_two_tb =
               (Inl (Exn RuntimeError (''Failed to fetch VPS data: '' @ exc_str x)),
                cache_two_tb, 1))"
proof -
  let ?cfg = "\<lparr>key = ''k'', hash_value = ''h'', should_loop = False, sleep_minutes = 5\<rparr>"
  have s: "\<not> cache_fresh cache_two_tb (time_entry env_fractional)"
    by (simp add: env_fractional_def stale_two_tb)
  have c: "config_source env_fractional = Inr ?cfg"
    by (simp add: env_fractional_def sample_config_def)
  have u: "upstream env_fractional (make_post_flags ?cfg) API_URL = Inr body_fractional"
    by (simp add: env_fractional_def)
  have m: "(''<hdd>1.5,2,3,4</hdd>'', [''hdd'', ''1.5,2,3,4'', ''hdd''])
        \<in> set (finditer OUTER_PATTERN body_fractional)"
    by (simp add: finditer_fractional)
  have g: "group [''hdd'', ''1.5,2,3,4'', ''hdd''] 0 \<in> set RESOURCE_TYPES"
    by (simp add: group_def RESOURCE_TYPES_def)
  have i: "case inner_groupdict ''<hdd>1.5,2,3,4</hdd>'' of None \<Rightarrow> True
         | Some d \<Rightarrow> total d = [] \<or> used d = [] \<or> free d = []"
    by (simp add: inner_fractional)
  from malformed_block_aborts_fetch [OF s c u m g i] s m inner_fractional
  show ?thesis by blast
qed

text \<open>
  Claim C7 as stated fails: the disk block \<^verbatim>\<open><hdd>1073741824,536870912,536870912,</hdd>\<close>
  has an empty fourth group, which \<^verbatim>\<open>float\<close> rejects, yet the fetch returns a snapshot
  and stores it.
\<close>

theorem empty_fourth_group_accepted:
  "(''<hdd>1073741824,536870912,536870912,</hdd>'',
      [''hdd'', ''1073741824,536870912,536870912,'', ''hdd''])
     \<in> set (finditer OUTER_PATTERN body_empty_per)
   \<and> inner_groupdict ''<hdd>1073741824,536870912,536870912,</hdd>'' =
       Some \<lparr>total = ''1073741824'', used = ''536870912'', free = ''536870912'', per = []\<rparr>
   \<and> py_float [] = Inl (Exn ValueError (''could not convert string to float: '' @ py_repr []))
   \<and> get_vps_data env_empty_per initial_cache =
       (Inr snapshot_one_gb, \<lparr>cached_data = Some snapshot_one_gb, last_update = 1000\<rparr>, 1)"
proof -
  have "get_vps_data env_empty_per initial_cache =
       (Inr snapshot_one_gb, \<lparr>cached_data = Some snapshot_one_gb, last_update = 1000\<rparr>, 1)"
    by (simp add: get_vps_data_stale stale_initial try_empty_per) (simp add: env_empty_per_def)
  then show ?thesis
    by (simp add: finditer_empty_per inner_empty_per py_float_def)
qed

section \<open>What reaches the resource processor\<close>

text \<open>
  Claim C10, as amended. The inner pattern captures only runs of decimal digits, possibly
  empty, in each of its four groups. When the processor returns a record for the captured
  groups, total, used and free were not empty and each value is the float of the natural
  number its digits write (that number, or \<^verbatim>\<open>inf\<close> beyond the range of a double), so it
  is not negative. A block \<^verbatim>\<open><name>content</name'>\<close> without an
  angle bracket in its names and content, whose content has a character other than digits
  and commas (a sign, a decimal point, an exponent, a blank), is not matched, and the
  parsing loop raises on it wherever it stands among the blocks of a resource tag.
\<close>

theorem inner_groups_are_digit_runs:
  "(inner_groupdict block = Some d \<longrightarrow>
      all_digits (total d) \<and> all_digits (used d) \<and> all_digits (free d) \<and> all_digits (per d))
   \<and> (inner_groupdict block = Some d \<and> process_resource_data d = Inr r \<longrightarrow>
         total d \<noteq> [] \<and> used d \<noteq> [] \<and> free d \<noteq> []
       \<and> r_total r = to_float (real (nat_of_digits (total d)))
       \<and> r_used r = to_float (real (nat_of_digits (used d)))
       \<and> r_free r = to_float (real (nat_of_digits (free d)))
       \<and> float_nonneg (r_total r) \<and> float_nonneg (r_used r) \<and> float_nonneg (r_free r))
   \<and> (CHR ''>'' \<notin> set name \<and> CHR ''>'' \<notin> set name' \<and> CHR ''>'' \<notin> set content
        \<and> CHR ''<'' \<notin> set content \<and> \<not> digits_and_commas content \<longrightarrow>
         inner_groupdict (tag_block name content name') = None
       \<and> (\<forall>gs ms res. (tag_block name content name', gs) \<in> set ms
               \<and> group gs 0 \<in> set RESOURCE_TYPES \<longrightarrow>
             (\<exists>x. api_response_loop ms res = Inl x)))"
proof -
  have one: "all_digits (total d) \<and> all_digits (used d) \<and> all_digits (free d) \<and> all_digits (per d)"
    if "inner_groupdict block = Some d"
    using inner_groupdict_shape[OF that] by blast
  have two: "total d \<noteq> [] \<and> used d \<noteq> [] \<and> free d \<noteq> []
       \<and> r_total r = to_float (real (nat_of_digits (total d)))
       \<and> r_used r = to_float (real (nat_of_digits (used d)))
       \<and> r_free r = to_float (real (nat_of_digits (free d)))
       \<and> float_nonneg (r_total r) \<and> float_nonneg (r_used r) \<and> float_nonneg (r_free r)"
    if "inner_groupdict block = Some d \<and> process_resource_data d = Inr r"
  proof -
    from that have "process_resource_data d = Inr r" by simp
    from process_values[OF this] show ?thesis by (simp add: float_of_nat_nonneg)
  qed
  have three: "inner_groupdict (tag_block name content name') = None
       \<and> (\<forall>gs ms res. (tag_block name content name', gs) \<in> set ms
               \<and> group gs 0 \<in> set RESOURCE_TYPES \<longrightarrow>
             (\<exists>x. api_response_loop ms res = Inl x))"
    if a: "CHR ''>'' \<notin> set name \<and> CHR ''>'' \<notin> set name' \<and> CHR ''>'' \<notin> set content
        \<and> CHR ''<'' \<notin> set content \<and> \<not> digits_and_commas content"
  proof -
    from a have none: "inner_groupdict (tag_block name content name') = None"
      by (simp add: plain_block_rejected)
    have "\<exists>x. api_response_loop ms res = Inl x"
      if m: "(tag_block name content name', gs) \<in> set ms \<and> group gs 0 \<in> set RESOURCE_TYPES"
      for gs ms res
    proof (rule api_response_loop_abort[of "tag_block name content name'" gs])
      from m show "(tag_block name content name', gs) \<in> set ms" by simp
      from m show "group gs 0 \<in> set RESOURCE_TYPES" by simp
      from none show "case inner_groupdict (tag_block name content name') of None \<Rightarrow> True
         | Some d \<Rightarrow> (\<exists>x. process_resource_data d = Inl x)" by simp
    qed
    with none show ?thesis by blast
  qed
  from one two three show ?thesis by blast
qed

text \<open>A block of digits with an empty fourth group, and a block with a negative total.\<close>

theorem inner_groups_are_digit_runs_witness:
  "inner_groupdict ''<hdd>1073741824,536870912,536870912,</hdd>'' =
       Some \<lparr>total = ''1073741824'', used = ''536870912'', free = ''536870912'', per = []\<rparr>
   \<and> all_digits ''1073741824'' \<and> all_digits ''536870912'' \<and> all_digits []
   \<and> process_resource_data
         \<lparr>total = ''1073741824'', used = ''536870912'', free = ''536870912'', per = []\<rparr>
       = Inr \<lparr>r_per = Fin 50, total_display = Fin 1, total_mag = GB,
              r_total = Fin 1073741824, used_display = Fin (1 / 2), used_mag = GB, r_used = Fin 536870912,
              free_display = Fin (1 / 2), free_mag = GB, r_free = Fin 536870912\<rparr>
   \<and> Fin 1073741824 = to_float (real (nat_of_digits ''1073741824''))
   \<and> \<not> digits_and_commas ''-1,2,3,4''
   \<and> inner_groupdict (tag_block ''hdd'' ''-1,2,3,4'' ''hdd'') = None
   \<and> (\<exists>x. api_response_loop
              [(tag_block ''hdd'' ''-1,2,3,4'' ''hdd'', [''hdd'', ''-1,2,3,4'', ''hdd''])] [] = Inl x)"
proof -
  let ?d = "\<lparr>total = ''1073741824'', used = ''536870912'', free = ''536870912'', per = []\<rparr>"
  let ?r = "\<lparr>r_per = Fin 50, total_display = Fin 1, total_mag = GB,
              r_total = Fin 1073741824, used_display = Fin (1 / 2), used_mag = GB, r_used = Fin 536870912,
              free_display = Fin (1 / 2), free_mag = GB, r_free = Fin 536870912\<rparr>"
  have p: "process_resource_data ?d = Inr ?r"
    by (simp add: processor_defs is_digit_def)
  have h: "CHR ''>'' \<notin> set ''hdd'' \<and> CHR ''>'' \<notin> set ''hdd'' \<and> CHR ''>'' \<notin> set ''-1,2,3,4''
        \<and> CHR ''<'' \<notin> set ''-1,2,3,4'' \<and> \<not> digits_and_commas ''-1,2,3,4''"
    by (simp add: is_digit_def)
  have g: "group [''hdd'', ''-1,2,3,4'', ''hdd''] 0 \<in> set RESOURCE_TYPES"
    by (simp add: group_def RESOURCE_TYPES_def)
  from inner_groups_are_digit_runs
         [of "''<hdd>1073741824,536870912,536870912,</hdd>''" ?d ?r "''hdd''" "''hdd''" "''-1,2,3,4''"]
       inner_empty_per p h g
  show ?thesis by (simp add: is_digit_def) 
qed

text \<open>
  Claim C10 as stated fails twice. The block \<^verbatim>\<open><hdd>,,,</hdd>\<close> is matched with four
  empty groups, which reach the processor and are no numbers (it raises). The block
  \<^verbatim>\<open><hdd>-1>1,2,3,4</hdd>\<close> contains a negative number and is accepted: the lazy
  \<^verbatim>\<open><.*?>\<close> of the inner pattern runs to the second \<^verbatim>\<open>>\<close>.
\<close>

theorem empty_groups_reach_processor:
  "inner_groupdict ''<hdd>,,,</hdd>'' = Some \<lparr>total = [], used = [], free = [], per = []\<rparr>
   \<and> process_resource_data \<lparr>total = [], used = [], free = [], per = []\<rparr>
       = Inl (Exn ValueError (''could not convert string to float: '' @ py_repr []))
   \<and> finditer OUTER_PATTERN ''<hdd>-1>1,2,3,4</hdd>''
       = [(''<hdd>-1>1,2,3,4</hdd>'', [''hdd'', ''-1>1,2,3,4'', ''hdd''])]
   \<and> inner_groupdict ''<hdd>-1>1,2,3,4</hdd>''
       = Some \<lparr>total = ''1'', used = ''2'', free = ''3'', per = ''4''\<rparr>
   \<and> api_response_loop (finditer OUTER_PATTERN ''<hdd>-1>1,2,3,4</hdd>'') []
       = Inr [(''hdd'', Resource \<lparr>r_per = Fin 200, total_display = Fin (1 / 1073741824), total_mag = GB,
                 r_total = Fin 1, used_display = Fin (2 / 1073741824), used_mag = GB, r_used = Fin 2,
                 free_display = Fin (3 / 1073741824), free_mag = GB, r_free = Fin 3\<rparr>)]"
  by (simp add: parser_defs processor_defs)

section \<open>Concurrent callers\<close>

lemma callers_all_hit:
  assumes "cached_data c = Some d" and "\<forall>e\<in>set es. cache_fresh c (time_entry e)"
  shows "callers es c = (replicate (length es) (Inr d), c, 0)"
  using assms(2)
proof (induction es)
  case Nil
  then show ?case by simp
next
  case (Cons e es)
  then have "cache_fresh c (time_entry e)" by simp
  from get_vps_data_fresh[OF this assms(1)] Cons show ?case by simp
qed

lemma callers_all_fail:
  assumes "\<forall>e\<in>set es. \<exists>x. get_vps_data e c = (Inl x, c, 1)"
  shows "callers es c = (map (\<lambda>e. fst (get_vps_data e c)) es, c, length es)"
  using assms
proof (induction es)
  case Nil
  then show ?case by simp
next
  case (Cons e es)
  then obtain x where "get_vps_data e c = (Inl x, c, 1)" by auto
  with Cons show ?case by simp
qed

lemma get_vps_data_replaces_both:
  assumes "get_vps_data e c = (r, c', n)"
  shows "c' = c \<or> (\<exists>d. r = Inr d \<and> c' = \<lparr>cached_data = Some d, last_update = time_entry e\<rparr>)"
proof (cases "cache_fresh c (time_entry e)")
  case True
  then obtain d where "cached_data c = Some d"
    by (auto simp: cache_fresh_def split: option.splits)
  from get_vps_data_fresh[OF True this] assms show ?thesis by simp
next
  case False
  with assms show ?thesis
    by (auto simp: get_vps_data_stale split: prod.splits sum.splits)
qed

text \<open>
  Claim C9, as amended. The freshness check, the conditional fetch and the replacement of
  the cache run as one critical section under one lock, so concurrent callers are served
  one at a time. If the caller that gets the lock first finds the cache not fresh and its
  fetch succeeds, and every other caller entered less than 60 seconds after that caller,
  exactly one upstream call is made in total and all N callers get the same snapshot. A
  failed fetch leaves the cache as it was, so the next caller fetches again: N callers
  that each fail after their POST make N upstream calls, and each gets the error of its own
  attempt. A call replaces the cached snapshot and its timestamp together or not at all.
\<close>

theorem callers_share_one_fetch:
  "(\<not> cache_fresh c (time_entry e) \<and> get_vps_data e c = (Inr d, c1, n)
      \<and> (\<forall>e'\<in>set es. time_entry e' - time_entry e < 60)
      \<longrightarrow> callers (e # es) c = (replicate (Suc (length es)) (Inr d), c1, 1))
   \<and> ((\<forall>e'\<in>set fs. \<exists>x. get_vps_data e' c2 = (Inl x, c2, 1))
      \<longrightarrow> callers fs c2 = (map (\<lambda>e'. fst (get_vps_data e' c2)) fs, c2, length fs))
   \<and> (get_vps_data e3 c3 = (r, c4, m)
      \<longrightarrow> c4 = c3 \<or> (\<exists>d'. r = Inr d' \<and> c4 = \<lparr>cached_data = Some d', last_update = time_entry e3\<rparr>))"
proof -
  have first: "callers (e # es) c = (replicate (Suc (length es)) (Inr d), c1, 1)"
    if a: "\<not> cache_fresh c (time_entry e) \<and> get_vps_data e c = (Inr d, c1, n)
      \<and> (\<forall>e'\<in>set es. time_entry e' - time_entry e < 60)"
  proof -
    from a have t: "get_vps_data_try e = (Inr d, n)"
      and c1: "c1 = \<lparr>cached_data = Some d, last_update = time_entry e\<rparr>"
      by (auto simp: get_vps_data_stale split: prod.splits sum.splits)
    from try_shape[OF t] have n: "n = 1" by blast
    have cd: "cached_data c1 = Some d" by (simp add: c1)
    have "\<forall>e'\<in>set es. cache_fresh c1 (time_entry e')"
      using a try_truthy[OF t] by (simp add: c1 cache_fresh_def CACHE_DURATION_def)
    from callers_all_hit[OF cd this] a n show ?thesis by simp
  qed
  from first callers_all_fail[of fs c2] get_vps_data_replaces_both[of e3 c3 r c4 m]
  show ?thesis by blast
qed

text \<open>
  A fetch at time 1000 followed by two callers that entered at 1059, and two callers on a
  stale cache whose POST times out.
\<close>

theorem callers_share_one_fetch_witness:
  "\<not> cache_fresh initial_cache (time_entry env_two_tb)
   \<and> get_vps_data env_two_tb initial_cache = (Inr snapshot_two_tb, cache_two_tb, 1)
   \<and> time_entry env_soon - time_entry env_two_tb < 60
   \<and> callers [env_two_tb, env_soon, env_soon] initial_cache
       = ([Inr snapshot_two_tb, Inr snapshot_two_tb, Inr snapshot_two_tb], cache_two_tb, 1)
   \<and> get_vps_data env_down cache_two_tb =
       (Inl (Exn RuntimeError ''Failed to fetch VPS data: API request failed: Read timed out.''),
        cache_two_tb, 1)
   \<and> callers [env_down, env_down] cache_two_tb
       = ([Inl (Exn RuntimeError ''Failed to fetch VPS data: API request failed: Read timed out.''),
           Inl (Exn RuntimeError ''Failed to fetch VPS data: API request failed: Read timed out.'')],
          cache_two_tb, 2)
   \<and> cache_two_tb = \<lparr>cached_data = Some snapshot_two_tb, last_update = time_entry env_two_tb\<rparr>"
proof -
  have s1: "\<not> cache_fresh initial_cache (time_entry env_two_tb)" by (rule stale_initial)
  have g1: "get_vps_data env_two_tb initial_cache = (Inr snapshot_two_tb, cache_two_tb, 1)"
    by (simp add: get_two_tb cache_two_tb_def)
  have t: "time_entry env_soon - time_entry env_two_tb < 60"
    by (simp add: env_soon_def env_two_tb_def)
  have ne: "cache_two_tb \<noteq> initial_cache"
    by (simp add: cache_two_tb_def initial_cache_def)
  from callers_share_one_fetch
         [of initial_cache env_two_tb snapshot_two_tb cache_two_tb 1 "[env_soon, env_soon]"
             "[env_down, env_down]" cache_two_tb env_two_tb initial_cache
             "Inr snapshot_two_tb" cache_two_tb 1]
       s1 g1 t ne get_down_two_tb
  show ?thesis by simp
qed

text \<open>
  Claim C9 as stated fails: three callers that arrive at an empty cache while the POST
  times out send three POSTs, one each, and the cache stays empty.
\<close>

theorem failing_callers_each_post:
  "callers [env_down, env_down, env_down] initial_cache =
     ([Inl (Exn RuntimeError ''Failed to fetch VPS data: API request failed: Read timed out.''),
       Inl (Exn RuntimeError ''Failed to fetch VPS data: API request failed: Read timed out.''),
       Inl (Exn RuntimeError ''Failed to fetch VPS data: API request failed: Read timed out.'')],
      initial_cache, 3)"
proof -
  have "get_vps_data env_down initial_cache =
     (Inl (Exn RuntimeError ''Failed to fetch VPS data: API request failed: Read timed out.''),
      initial_cache, 1)"
    by (simp add: get_vps_data_stale stale_initial try_down)
  then show ?thesis by simp
qed

end
